theory Spec2Isabelle
  imports Main "HOL-Library.Word"
begin

unbundle bit_operations_syntax

section \<open>The docker-archive writer (docker/internal/tarfile/writer.go)\<close>

text \<open>
  A shallow embedding of \<^verbatim>\<open>Writer\<close> and its methods. Go strings and byte slices
  are \<open>string\<close> (lists of bytes); \<open>int64\<close> sizes are \<open>int\<close> (no size computed here
  comes near the 64-bit bound); Go maps are partial functions. Every method takes the
  writer and returns the writer it leaves behind; an \<open>error\<close> return is an
  \<open>error option\<close> (\<open>None\<close> is Go's \<open>nil\<close>).
\<close>

subsection \<open>Errors\<close>

datatype error =
    UnknownDigest                   \<comment> \<open>"Can not check for a blob with unknown digest"\<close>
  | SizeMismatch string int int     \<comment> \<open>"Size mismatch when copying %s, expected %d, got %d"\<close>
  | Wrap string error               \<comment> \<open>\<open>errors.Wrap(err, msg)\<close>\<close>
  | UnknownFileMode                 \<comment> \<open>archive/tar: header construction for an unsupported mode\<close>
  | NegativeSize                    \<comment> \<open>archive/tar: a header with a negative size\<close>
  | MissedWriting int               \<comment> \<open>archive/tar: the previous entry is short of bytes\<close>
  | ErrWriteTooLong                 \<comment> \<open>archive/tar: more payload than the header announced\<close>
  | DestError                       \<comment> \<open>the destination \<open>io.Writer\<close> refused a write\<close>
  | ReadError string                \<comment> \<open>the source \<open>io.Reader\<close> failed\<close>
  | JSONError string                \<comment> \<open>encoding/json\<close>

text \<open>A call that can panic either returns its value or panics.\<close>

datatype 'a outcome = Return 'a | Panicked

subsection \<open>Digests (opencontainers/go-digest)\<close>

text \<open>
  A \<^verbatim>\<open>digest.Digest\<close> is a string \<open>algorithm:encoded\<close>. \<^verbatim>\<open>Hex\<close> returns what
  follows the first colon and panics when there is none (\<open>None\<close> here).
  \<^verbatim>\<open>String\<close> is the string itself.
\<close>

type_synonym Digest = string

definition Hex :: "Digest \<Rightarrow> string option" where
  "Hex d = (if CHR '':'' \<in> set d
            then Some (tl (dropWhile (\<lambda>c. c \<noteq> CHR '':'') d)) else None)"

text \<open>
  \<^verbatim>\<open>digest.Canonical.FromString\<close> is SHA-256: the algorithm name, a colon, and
  the 32-byte hash as 64 lower-case hexadecimal digits. The hash function itself is a
  parameter of the model (\<open>sha256\<close>).
\<close>

definition hexdigit :: "nat \<Rightarrow> char" where
  "hexdigit n = ''0123456789abcdef'' ! (n mod 16)"

definition hex256 :: "256 word \<Rightarrow> string" where
  "hex256 h = map (\<lambda>i. hexdigit (unat (drop_bit (4 * (63 - i)) h AND 15))) [0..<64]"

definition FromString :: "(string \<Rightarrow> 256 word) \<Rightarrow> string \<Rightarrow> Digest" where
  "FromString sha256 s = ''sha256:'' @ hex256 (sha256 s)"

subsection \<open>Blob registry\<close>

text \<open>
  Modelled from the spec: \<^verbatim>\<open>types.BlobInfo\<close> is declared in another package of this
  repository; the spec gives it a digest and a size. The zero value \<^verbatim>\<open>BlobInfo{}\<close>
  has the empty digest and size 0.
\<close>

record BlobInfo =
  Digest :: Digest
  Size :: int

definition emptyBlobInfo :: BlobInfo where
  "emptyBlobInfo = \<lparr>Digest = '''', Size = 0\<rparr>"

subsection \<open>The standard library's tar writer (archive/tar), as far as the writer uses it\<close>

text \<open>
  \<^verbatim>\<open>os.FileMode\<close> is a 32-bit set of flags over the nine permission bits.
\<close>

type_synonym FileMode = "32 word"

definition ModeDir :: FileMode where "ModeDir = push_bit 31 1"
definition ModeSymlink :: FileMode where "ModeSymlink = push_bit 27 1"
definition ModeDevice :: FileMode where "ModeDevice = push_bit 26 1"
definition ModeNamedPipe :: FileMode where "ModeNamedPipe = push_bit 25 1"
definition ModeSocket :: FileMode where "ModeSocket = push_bit 24 1"
definition ModeSetuid :: FileMode where "ModeSetuid = push_bit 23 1"
definition ModeSetgid :: FileMode where "ModeSetgid = push_bit 22 1"
definition ModeCharDevice :: FileMode where "ModeCharDevice = push_bit 21 1"
definition ModeSticky :: FileMode where "ModeSticky = push_bit 20 1"
definition ModeIrregular :: FileMode where "ModeIrregular = push_bit 19 1"

definition ModeType :: FileMode where
  "ModeType = ModeDir OR ModeSymlink OR ModeNamedPipe OR ModeSocket OR ModeDevice
              OR ModeCharDevice OR ModeIrregular"

definition ModePerm :: FileMode where "ModePerm = 511"  \<comment> \<open>octal 0777\<close>

definition IsRegular :: "FileMode \<Rightarrow> bool" where
  "IsRegular m = (m AND ModeType = 0)"

definition Perm :: "FileMode \<Rightarrow> FileMode" where
  "Perm m = m AND ModePerm"

text \<open>\<^verbatim>\<open>time.Unix(sec, nsec)\<close>: seconds and nanoseconds since the epoch, normalised.\<close>

type_synonym Time = "int \<times> int"

definition Unix :: "int \<Rightarrow> int \<Rightarrow> Time" where
  "Unix sec nsec = (sec + nsec div 1000000000, nsec mod 1000000000)"

datatype typeflag = TypeReg | TypeDir | TypeSymlink | TypeChar | TypeBlock | TypeFifo

record Header =
  Typeflag :: typeflag
  hdr_Name :: string
  Linkname :: string
  hdr_Size :: int
  hdr_Mode :: int
  hdr_ModTime :: Time

definition isHeaderOnlyType :: "typeflag \<Rightarrow> bool" where
  "isHeaderOnlyType t = (t \<noteq> TypeReg)"

text \<open>
  The tar stream: the headers written so far, each with the payload bytes that followed
  it; the writer's sticky error; and how many more units the destination accepts before
  it fails (a header is one unit, a payload byte is one unit, \<open>None\<close> is a destination
  that never fails).
\<close>

record tar_Writer =
  entries :: "(Header \<times> string) list"
  err :: "error option"
  dest :: "nat option"

definition tar_NewWriter :: "nat option \<Rightarrow> tar_Writer" where
  "tar_NewWriter d = \<lparr>entries = [], err = None, dest = d\<rparr>"

text \<open>The bytes the current entry still expects.\<close>

definition remaining :: "tar_Writer \<Rightarrow> int" where
  "remaining tw =
     (case rev (entries tw) of
        [] \<Rightarrow> 0
      | (h, p) # _ \<Rightarrow>
          (if isHeaderOnlyType (Typeflag h) then 0 else hdr_Size h) - int (length p))"

text \<open>
  \<^verbatim>\<open>WriteHeader\<close> flushes the previous entry (an error if it is short of bytes),
  refuses a negative size, and writes the header block.
\<close>

definition WriteHeader :: "tar_Writer \<Rightarrow> Header \<Rightarrow> error option \<times> tar_Writer" where
  "WriteHeader tw hdr =
     (case err tw of
        Some e \<Rightarrow> (Some e, tw)
      | None \<Rightarrow>
          if remaining tw > 0 then (Some (MissedWriting (remaining tw)), tw)
          else if \<not> isHeaderOnlyType (Typeflag hdr) \<and> hdr_Size hdr < 0
            then (Some NegativeSize, tw)
          else (case dest tw of
                  None \<Rightarrow> (None, tw\<lparr>entries := entries tw @ [(hdr, [])]\<rparr>)
                | Some 0 \<Rightarrow> (Some DestError, tw\<lparr>err := Some DestError\<rparr>)
                | Some (Suc k) \<Rightarrow>
                    (None, tw\<lparr>entries := entries tw @ [(hdr, [])], dest := Some k\<rparr>)))"

text \<open>An \<^verbatim>\<open>io.Reader\<close>: the bytes it yields, then end of file or an error.\<close>

record Reader =
  data :: string
  rerr :: "error option"

definition bytes_NewReader :: "string \<Rightarrow> Reader" where
  "bytes_NewReader b = \<lparr>data = b, rerr = None\<rparr>"

definition append_payload :: "string \<Rightarrow> tar_Writer \<Rightarrow> tar_Writer" where
  "append_payload bs tw =
     (case rev (entries tw) of
        [] \<Rightarrow> tw
      | (h, p) # es \<Rightarrow> tw\<lparr>entries := rev es @ [(h, p @ bs)]\<rparr>)"

text \<open>
  \<^verbatim>\<open>io.Copy(w.tar, stream)\<close>: the bytes of the stream go to the current entry until
  the stream ends, the entry is full (\<^verbatim>\<open>ErrWriteTooLong\<close>) or the destination
  fails; the result is the number of bytes written and the first error.
\<close>

definition io_Copy :: "tar_Writer \<Rightarrow> Reader \<Rightarrow> (int \<times> error option) \<times> tar_Writer" where
  "io_Copy tw src =
     (if data src = [] then ((0, rerr src), tw)
      else case err tw of
        Some e \<Rightarrow> ((0, Some e), tw)
      | None \<Rightarrow>
          let room = nat (remaining tw);
              fit = min (length (data src)) room;
              n = (case dest tw of None \<Rightarrow> fit | Some k \<Rightarrow> min fit k);
              tw' = append_payload (take n (data src))
                      (tw\<lparr>dest := map_option (\<lambda>k. k - n) (dest tw)\<rparr>)
          in if n < fit then ((int n, Some DestError), tw'\<lparr>err := Some DestError\<rparr>)
             else if room < length (data src) then ((int n, Some ErrWriteTooLong), tw')
             else ((int n, rerr src), tw'))"

text \<open>The payload bytes a tar stream holds.\<close>

definition payload_bytes :: "tar_Writer \<Rightarrow> nat" where
  "payload_bytes tw = sum_list (map (\<lambda>(h, p). length p) (entries tw))"

subsection \<open>tarFI: the synthetic file description\<close>

record tarFI =
  path :: string
  size' :: int
  isSymlink :: bool

definition fi_Name :: "tarFI \<Rightarrow> string" where
  "fi_Name t = path t"

definition fi_Size :: "tarFI \<Rightarrow> int" where
  "fi_Size t = size' t"

definition fi_Mode :: "tarFI \<Rightarrow> FileMode" where
  "fi_Mode t = (if isSymlink t then ModeSymlink else 292)"  \<comment> \<open>octal 0444\<close>

definition fi_ModTime :: "tarFI \<Rightarrow> Time" where
  "fi_ModTime t = Unix 0 0"

definition fi_IsDir :: "tarFI \<Rightarrow> bool" where
  "fi_IsDir t = False"

text \<open>
  \<^verbatim>\<open>tar.FileInfoHeader(fi, link)\<close> of the standard library, on what a \<^verbatim>\<open>tarFI\<close>
  presents (its \<^verbatim>\<open>Sys()\<close> is nil): name, permission bits and time are copied, the
  type follows the mode, and a socket or an unknown mode is an error.
\<close>

definition special_bits :: "FileMode \<Rightarrow> int" where
  "special_bits fm =
     (if fm AND ModeSetuid \<noteq> 0 then 2048 else 0)
     + (if fm AND ModeSetgid \<noteq> 0 then 1024 else 0)
     + (if fm AND ModeSticky \<noteq> 0 then 512 else 0)"

definition FileInfoHeader :: "tarFI \<Rightarrow> string \<Rightarrow> error + Header" where
  "FileInfoHeader fi link =
     (let fm = fi_Mode fi;
          h = \<lparr>Typeflag = TypeReg, hdr_Name = fi_Name fi, Linkname = [], hdr_Size = 0,
               hdr_Mode = uint (Perm fm) + special_bits fm, hdr_ModTime = fi_ModTime fi\<rparr>
      in if IsRegular fm then Inr (h\<lparr>Typeflag := TypeReg, hdr_Size := fi_Size fi\<rparr>)
         else if fi_IsDir fi then Inr (h\<lparr>Typeflag := TypeDir, hdr_Name := fi_Name fi @ ''/''\<rparr>)
         else if fm AND ModeSymlink \<noteq> 0 then Inr (h\<lparr>Typeflag := TypeSymlink, Linkname := link\<rparr>)
         else if fm AND ModeDevice \<noteq> 0 then
           Inr (h\<lparr>Typeflag := (if fm AND ModeCharDevice \<noteq> 0 then TypeChar else TypeBlock)\<rparr>)
         else if fm AND ModeNamedPipe \<noteq> 0 then Inr (h\<lparr>Typeflag := TypeFifo\<rparr>)
         else Inl UnknownFileMode)"

subsection \<open>What the writer takes from outside this file\<close>

text \<open>
  Modelled from the spec: \<^verbatim>\<open>reference.NamedTagged\<close> is declared in another package
  of this repository; the writer reads a repository name and a tag from it.
\<close>

record NamedTagged =
  Name :: string
  Tag :: string

text \<open>
  Modelled from the spec: \<^verbatim>\<open>manifest.Schema2Descriptor\<close> is declared in another
  package of this repository; a layer descriptor is a digest, a size and a media type.
\<close>

record Schema2Descriptor =
  MediaType :: string
  desc_Size :: int
  desc_Digest :: Digest

text \<open>
  Modelled from the spec: \<^verbatim>\<open>ManifestItem\<close> is declared in another file of this
  package: a config path, the tags, the layer paths, a parent and layer sources
  (\<open>None\<close> is the nil map).
\<close>

record ManifestItem =
  Config :: string
  RepoTags :: "string list"
  Layers :: "string list"
  Parent :: string
  LayerSources :: "(string \<rightharpoonup> string) option"

text \<open>
  Modelled from the spec: the file names are constants declared in another file of this
  package; the spec's archive layout gives their values.
\<close>

definition legacyLayerFileName :: string where
  "legacyLayerFileName = ''layer.tar''"

definition legacyVersionFileName :: string where
  "legacyVersionFileName = ''VERSION''"

definition legacyConfigFileName :: string where
  "legacyConfigFileName = ''json''"

definition legacyRepositoriesFileName :: string where
  "legacyRepositoriesFileName = ''repositories''"

definition manifestFileName :: string where
  "manifestFileName = ''manifest.json''"

text \<open>
  The values the writer hands to \<^verbatim>\<open>json.Marshal\<close>: a layer configuration
  (\<^verbatim>\<open>map[string]interface{}\<close> whose values are strings or \<^verbatim>\<open>*json.RawMessage\<close>,
  \<open>Raw None\<close> being the nil pointer), the repositories map, and the manifest items.
\<close>

type_synonym RawMessage = string

datatype cfgval = Str string | Raw "RawMessage option"

datatype go_value =
    LayerConfig "string \<Rightarrow> cfgval option"
  | Repositories "string \<Rightarrow> (string \<Rightarrow> string option) option"
  | Manifest "ManifestItem list"

text \<open>
  The library functions whose results the writer only passes on are parameters of the
  model: SHA-256, \<^verbatim>\<open>filepath.Join\<close>, \<^verbatim>\<open>json.Unmarshal\<close> into a
  \<^verbatim>\<open>map[string]*json.RawMessage\<close>, \<^verbatim>\<open>json.Marshal\<close>, and the header constructor
  \<^verbatim>\<open>tar.FileInfoHeader\<close> (\<open>FileInfoHeader\<close> above is the standard library's).
\<close>

record lib =
  sha256 :: "string \<Rightarrow> 256 word"
  filepath_Join :: "string \<Rightarrow> string \<Rightarrow> string"
  json_Unmarshal :: "string \<Rightarrow> error + (string \<Rightarrow> RawMessage option option)"
  json_Marshal :: "go_value \<Rightarrow> error + string"
  tar_FileInfoHeader :: "tarFI \<Rightarrow> string \<Rightarrow> error + Header"

definition Canonical_FromString :: "lib \<Rightarrow> string \<Rightarrow> Digest" where
  "Canonical_FromString L s = FromString (sha256 L) s"

subsection \<open>Writer\<close>

text \<open>
  The destination \<^verbatim>\<open>io.Writer\<close> is the \<open>dest\<close> of the tar stream.
\<close>

record Writer =
  tar :: tar_Writer
  blobs :: "Digest \<Rightarrow> BlobInfo option"

definition NewWriter :: "nat option \<Rightarrow> Writer" where
  "NewWriter d = \<lparr>tar = tar_NewWriter d, blobs = Map.empty\<rparr>"

definition tryReusingBlob :: "Writer \<Rightarrow> BlobInfo \<Rightarrow> bool \<times> BlobInfo \<times> error option" where
  "tryReusingBlob w info =
     (if Digest info = '''' then (False, emptyBlobInfo, Some UnknownDigest)
      else case blobs w (Digest info) of
        Some blob \<Rightarrow> (True, \<lparr>Digest = Digest info, Size = Size blob\<rparr>, None)
      | None \<Rightarrow> (False, emptyBlobInfo, None))"

definition recordBlob :: "Writer \<Rightarrow> BlobInfo \<Rightarrow> Writer" where
  "recordBlob w info = w\<lparr>blobs := (blobs w)(Digest info \<mapsto> info)\<rparr>"

definition configPath :: "Digest \<Rightarrow> string option" where
  "configPath configDigest = map_option (\<lambda>h. h @ ''.json'') (Hex configDigest)"

definition physicalLayerPath :: "Digest \<Rightarrow> string option" where
  "physicalLayerPath layerDigest = map_option (\<lambda>h. h @ ''.tar'') (Hex layerDigest)"

definition sendSymlink :: "lib \<Rightarrow> Writer \<Rightarrow> string \<Rightarrow> string \<Rightarrow> error option \<times> Writer" where
  "sendSymlink L w p target =
     (case tar_FileInfoHeader L \<lparr>path = p, size' = 0, isSymlink = True\<rparr> target of
        Inl e \<Rightarrow> (None, w)
      | Inr hdr \<Rightarrow>
          (case WriteHeader (tar w) hdr of (e, t) \<Rightarrow> (e, w\<lparr>tar := t\<rparr>)))"

definition sendFile :: "lib \<Rightarrow> Writer \<Rightarrow> string \<Rightarrow> int \<Rightarrow> Reader \<Rightarrow> error option \<times> Writer" where
  "sendFile L w p expectedSize stream =
     (case tar_FileInfoHeader L \<lparr>path = p, size' = expectedSize, isSymlink = False\<rparr> '''' of
        Inl e \<Rightarrow> (None, w)
      | Inr hdr \<Rightarrow>
          (case WriteHeader (tar w) hdr of
             (Some e, t) \<Rightarrow> (Some e, w\<lparr>tar := t\<rparr>)
           | (None, t) \<Rightarrow>
               (case io_Copy t stream of
                  ((n, Some e), t') \<Rightarrow> (Some e, w\<lparr>tar := t'\<rparr>)
                | ((n, None), t') \<Rightarrow>
                    if n \<noteq> expectedSize
                    then (Some (SizeMismatch p expectedSize n), w\<lparr>tar := t'\<rparr>)
                    else (None, w\<lparr>tar := t'\<rparr>))))"

definition sendBytes :: "lib \<Rightarrow> Writer \<Rightarrow> string \<Rightarrow> string \<Rightarrow> error option \<times> Writer" where
  "sendBytes L w p b = sendFile L w p (int (length b)) (bytes_NewReader b)"

subsection \<open>writeLegacyLayerMetadata\<close>

definition layerAttrs :: "string list" where
  "layerAttrs = [''architecture'', ''config'', ''container'', ''container_config'',
                 ''created'', ''docker_version'', ''os'']"

text \<open>
  \<^verbatim>\<open>layerConfig[attr] = config[attr]\<close> for each attribute: a key the configuration
  lacks reads as the nil pointer.
\<close>

fun copy_attrs ::
  "(string \<Rightarrow> RawMessage option option) \<Rightarrow> (string \<Rightarrow> cfgval option) \<Rightarrow> string list
   \<Rightarrow> (string \<Rightarrow> cfgval option)" where
  "copy_attrs config layerConfig [] = layerConfig"
| "copy_attrs config layerConfig (attr # attrs) =
     copy_attrs config
       (layerConfig(attr \<mapsto> Raw (case config attr of None \<Rightarrow> None | Some r \<Rightarrow> r))) attrs"

text \<open>The configuration of one layer; \<open>isLast\<close> is \<^verbatim>\<open>i == len(layerDescriptors)-1\<close>.\<close>

definition layerConfigFor ::
  "lib \<Rightarrow> string \<Rightarrow> bool \<Rightarrow> string \<Rightarrow> string \<Rightarrow> error + (string \<Rightarrow> cfgval option)" where
  "layerConfigFor L configBytes isLast layerID lastLayerID =
     (let layerConfig = [''id'' \<mapsto> Str layerID];
          layerConfig = (if lastLayerID \<noteq> '''' then layerConfig(''parent'' \<mapsto> Str lastLayerID)
                         else layerConfig)
      in if isLast then
           (case json_Unmarshal L configBytes of
              Inl e \<Rightarrow> Inl (Wrap ''Error unmarshaling config'' e)
            | Inr config \<Rightarrow> Inr (copy_attrs config layerConfig layerAttrs))
         else Inr layerConfig)"

text \<open>
  One turn of the loop, from the chain ID and the layer ID the previous turn left: either
  the function returns an error (\<open>Inr\<close>), or the loop goes on with the new chain ID,
  the layer ID and the physical path of this layer (\<open>Inl\<close>).
\<close>

definition layerBody ::
  "lib \<Rightarrow> string \<Rightarrow> bool \<Rightarrow> Writer \<Rightarrow> Digest \<Rightarrow> string \<Rightarrow> Schema2Descriptor
   \<Rightarrow> ((Digest \<times> string \<times> string) + error) outcome \<times> Writer" where
  "layerBody L configBytes isLast w chainID lastLayerID l =
     (let chainID' = (if chainID = '''' then desc_Digest l
                      else Canonical_FromString L (chainID @ '' '' @ desc_Digest l))
      in case Hex chainID' of
        None \<Rightarrow> (Panicked, w)
      | Some layerID \<Rightarrow>
      (case physicalLayerPath (desc_Digest l) of
        None \<Rightarrow> (Panicked, w)
      | Some plp \<Rightarrow>
      (case sendSymlink L w (filepath_Join L layerID legacyLayerFileName)
                            (filepath_Join L ''..'' plp) of
        (Some e, w1) \<Rightarrow> (Return (Inr (Wrap ''Error creating layer symbolic link'' e)), w1)
      | (None, w1) \<Rightarrow>
      (case sendBytes L w1 (filepath_Join L layerID legacyVersionFileName) ''1.0'' of
        (Some e, w2) \<Rightarrow> (Return (Inr (Wrap ''Error writing VERSION file'' e)), w2)
      | (None, w2) \<Rightarrow>
      (case layerConfigFor L configBytes isLast layerID lastLayerID of
        Inl e \<Rightarrow> (Return (Inr e), w2)
      | Inr layerConfig \<Rightarrow>
      (case json_Marshal L (LayerConfig layerConfig) of
        Inl e \<Rightarrow> (Return (Inr (Wrap ''Error marshaling layer config'' e)), w2)
      | Inr b \<Rightarrow>
      (case sendBytes L w2 (filepath_Join L layerID legacyConfigFileName) b of
        (Some e, w3) \<Rightarrow> (Return (Inr (Wrap ''Error writing config json file'' e)), w3)
      | (None, w3) \<Rightarrow> (Return (Inl (chainID', layerID, plp)), w3))))))))"

text \<open>
  The loop over the layers: \<open>n\<close> is \<^verbatim>\<open>len(layerDescriptors)\<close>, \<open>i\<close> the index, and
  the result is \<^verbatim>\<open>(layerPaths, lastLayerID, err)\<close>; the empty list stands for the nil
  slice.
\<close>

fun layerLoop ::
  "lib \<Rightarrow> string \<Rightarrow> nat \<Rightarrow> Writer \<Rightarrow> Digest \<Rightarrow> string \<Rightarrow> string list \<Rightarrow> nat
   \<Rightarrow> Schema2Descriptor list \<Rightarrow> (string list \<times> string \<times> error option) outcome \<times> Writer" where
  "layerLoop L configBytes n w chainID lastLayerID layerPaths i [] =
     (Return (layerPaths, lastLayerID, None), w)"
| "layerLoop L configBytes n w chainID lastLayerID layerPaths i (l # ls) =
     (case layerBody L configBytes (int i = int n - 1) w chainID lastLayerID l of
        (Panicked, w') \<Rightarrow> (Panicked, w')
      | (Return (Inr e), w') \<Rightarrow> (Return ([], '''', Some e), w')
      | (Return (Inl (chainID', layerID, plp)), w') \<Rightarrow>
          layerLoop L configBytes n w' chainID' layerID (layerPaths @ [plp]) (Suc i) ls)"

definition writeLegacyLayerMetadata ::
  "lib \<Rightarrow> Writer \<Rightarrow> Schema2Descriptor list \<Rightarrow> string
   \<Rightarrow> (string list \<times> string \<times> error option) outcome \<times> Writer" where
  "writeLegacyLayerMetadata L w layerDescriptors configBytes =
     layerLoop L configBytes (length layerDescriptors) w '''' '''' [] 0 layerDescriptors"

subsection \<open>createRepositoriesFile and createManifest\<close>

fun addRepoTags ::
  "string \<Rightarrow> (string \<Rightarrow> (string \<Rightarrow> string option) option) \<Rightarrow> NamedTagged list
   \<Rightarrow> (string \<Rightarrow> (string \<Rightarrow> string option) option)" where
  "addRepoTags rootLayerID repositories [] = repositories"
| "addRepoTags rootLayerID repositories (repoTag # rest) =
     addRepoTags rootLayerID
       (case repositories (Name repoTag) of
          Some val \<Rightarrow> repositories(Name repoTag \<mapsto> val(Tag repoTag \<mapsto> rootLayerID))
        | None \<Rightarrow> repositories(Name repoTag \<mapsto> [Tag repoTag \<mapsto> rootLayerID]))
       rest"

definition createRepositoriesFile ::
  "lib \<Rightarrow> Writer \<Rightarrow> string \<Rightarrow> NamedTagged list \<Rightarrow> error option \<times> Writer" where
  "createRepositoriesFile L w rootLayerID repoTags =
     (let repositories = addRepoTags rootLayerID Map.empty repoTags
      in case json_Marshal L (Repositories repositories) of
        Inl e \<Rightarrow> (Some (Wrap ''Error marshaling repositories'' e), w)
      | Inr b \<Rightarrow>
          (case sendBytes L w legacyRepositoriesFileName b of
             (Some e, w') \<Rightarrow> (Some (Wrap ''Error writing config json file'' e), w')
           | (None, w') \<Rightarrow> (None, w')))"

definition refString :: "NamedTagged \<Rightarrow> string" where
  "refString t = Name t @ '':'' @ Tag t"  \<comment> \<open>\<^verbatim>\<open>fmt.Sprintf("%s:%s", tag.Name(), tag.Tag())\<close>\<close>

definition createManifest ::
  "lib \<Rightarrow> Writer \<Rightarrow> Digest \<Rightarrow> string list \<Rightarrow> NamedTagged list
   \<Rightarrow> error option outcome \<times> Writer" where
  "createManifest L w configDigest layerPaths repoTags =
     (case configPath configDigest of
        None \<Rightarrow> (Panicked, w)
      | Some cp \<Rightarrow>
          let item = \<lparr>Config = cp, RepoTags = [], Layers = layerPaths, Parent = '''',
                      LayerSources = None\<rparr>;
              item = foldl (\<lambda>it t. it\<lparr>RepoTags := RepoTags it @ [refString t]\<rparr>) item repoTags;
              items = [item]
          in case json_Marshal L (Manifest items) of
            Inl e \<Rightarrow> (Return (Some e), w)
          | Inr itemsBytes \<Rightarrow>
              (case sendBytes L w manifestFileName itemsBytes of
                 (e, w') \<Rightarrow> (Return e, w')))"

subsection \<open>The entries the writer emits\<close>

text \<open>
  The header of a regular file of \<open>n\<close> bytes at \<open>p\<close> (mode octal 0444), and of a symbolic
  link at \<open>p\<close> to \<open>target\<close>, both dated at the epoch.
\<close>

definition fileHeader :: "string \<Rightarrow> int \<Rightarrow> Header" where
  "fileHeader p n = \<lparr>Typeflag = TypeReg, hdr_Name = p, Linkname = [], hdr_Size = n,
     hdr_Mode = 292, hdr_ModTime = (0, 0)\<rparr>"

definition symlinkHeader :: "string \<Rightarrow> string \<Rightarrow> Header" where
  "symlinkHeader p target = \<lparr>Typeflag = TypeSymlink, hdr_Name = p, Linkname = target,
     hdr_Size = 0, hdr_Mode = 0, hdr_ModTime = (0, 0)\<rparr>"

text \<open>The headers of the stream, and what the writer fixes in each of them.\<close>

definition headers :: "Writer \<Rightarrow> Header list" where
  "headers w = map fst (entries (tar w))"

definition fixedMetadata :: "Header \<Rightarrow> bool" where
  "fixedMetadata h =
     (hdr_ModTime h = Unix 0 0 \<and>
      (case Typeflag h of
         TypeReg \<Rightarrow> hdr_Mode h = 292
       | TypeSymlink \<Rightarrow> hdr_Size h = 0 \<and> hdr_Mode h = 0
       | _ \<Rightarrow> False))"

subsection \<open>Example libraries\<close>

text \<open>
  A small library to run the writer on concrete inputs: the standard header constructor, a
  stand-in hash, \<^verbatim>\<open>Join\<close> with a slash, a decoder that knows two configurations, and
  an encoder that prints a layer configuration key by key, a manifest path by path, and of
  a repositories map the references it knows.
\<close>

definition showCfg :: "(string \<Rightarrow> cfgval option) \<Rightarrow> string \<Rightarrow> string" where
  "showCfg m k =
     (case m k of
        None \<Rightarrow> []
      | Some (Str s) \<Rightarrow> k @ ''='' @ s @ '';''
      | Some (Raw None) \<Rightarrow> k @ ''=null;''
      | Some (Raw (Some r)) \<Rightarrow> k @ ''='' @ r @ '';'')"

definition exampleRefs :: "(string \<times> string) list" where
  "exampleRefs = [(''busybox'', ''latest''), (''busybox'', ''1.36''), (''alpine'', ''3'')]"

definition showRepo ::
  "(string \<Rightarrow> (string \<Rightarrow> string option) option) \<Rightarrow> string \<times> string \<Rightarrow> string" where
  "showRepo r nt =
     (case r (fst nt) of
        None \<Rightarrow> []
      | Some ts \<Rightarrow>
          (case ts (snd nt) of
             None \<Rightarrow> []
           | Some i \<Rightarrow> fst nt @ '':'' @ snd nt @ ''='' @ i @ '';''))"

definition exampleMarshal :: "go_value \<Rightarrow> error + string" where
  "exampleMarshal v =
     (case v of
        LayerConfig m \<Rightarrow> Inr (concat (map (showCfg m) (''id'' # ''parent'' # layerAttrs)))
      | Repositories r \<Rightarrow> Inr (concat (map (showRepo r) exampleRefs))
      | Manifest items \<Rightarrow>
          Inr (concat (map (\<lambda>it. Config it @ '' '' @ concat (RepoTags it) @ '' ''
                                   @ concat (Layers it)) items)))"

definition exampleUnmarshal :: "string \<Rightarrow> error + (string \<Rightarrow> RawMessage option option)" where
  "exampleUnmarshal b =
     (if b = ''{}'' then Inr Map.empty
      else if b = ''{os:linux}'' then Inr [''os'' \<mapsto> Some ''linux'']
      else Inl (JSONError ''unexpected input''))"

definition exampleLib :: lib where
  "exampleLib = \<lparr>sha256 = (\<lambda>s. of_nat (length s)),
                  filepath_Join = (\<lambda>a b. a @ ''/'' @ b),
                  json_Unmarshal = exampleUnmarshal,
                  json_Marshal = exampleMarshal,
                  tar_FileInfoHeader = FileInfoHeader\<rparr>"

text \<open>The same library with a header constructor that fails.\<close>

definition failingLib :: lib where
  "failingLib = exampleLib\<lparr>tar_FileInfoHeader := (\<lambda>fi link. Inl UnknownFileMode)\<rparr>"

subsection \<open>The archive the spec describes\<close>

text \<open>Total readings of partial results, for stating what a successful run wrote.\<close>

definition hexOf :: "Digest \<Rightarrow> string" where
  "hexOf d = (case Hex d of Some h \<Rightarrow> h | None \<Rightarrow> [])"

definition marshalled :: "lib \<Rightarrow> go_value \<Rightarrow> string" where
  "marshalled L v = (case json_Marshal L v of Inr b \<Rightarrow> b | Inl e \<Rightarrow> [])"

definition configOf :: "lib \<Rightarrow> string \<Rightarrow> (string \<Rightarrow> RawMessage option option)" where
  "configOf L configBytes =
     (case json_Unmarshal L configBytes of Inr config \<Rightarrow> config | Inl e \<Rightarrow> Map.empty)"

text \<open>
  The chain ID as the spec words it (4.2): the chain ID of layer 0 is its digest; the
  chain ID of a later layer is the canonical hash of the previous chain ID, one space,
  and the layer's digest. The legacy layer ID is its hex encoding.
\<close>

fun spec_chainID :: "lib \<Rightarrow> Digest list \<Rightarrow> nat \<Rightarrow> Digest" where
  "spec_chainID L ds 0 = ds ! 0"
| "spec_chainID L ds (Suc i) =
     Canonical_FromString L (spec_chainID L ds i @ '' '' @ ds ! Suc i)"

definition spec_legacyID :: "lib \<Rightarrow> Digest list \<Rightarrow> nat \<Rightarrow> string" where
  "spec_legacyID L ds i = hexOf (spec_chainID L ds i)"

text \<open>
  The per-layer configuration as the spec words it (4.3): always \<open>id\<close>; \<open>parent\<close> when
  there is one; for the top layer the seven fields of the image configuration, as raw
  JSON. Nothing else.
\<close>

definition spec_layerConfig ::
  "(string \<Rightarrow> RawMessage option option) \<Rightarrow> string \<Rightarrow> string option \<Rightarrow> bool
   \<Rightarrow> (string \<Rightarrow> cfgval option)" where
  "spec_layerConfig config layerID parent isTop =
     (\<lambda>k. if k = ''id'' then Some (Str layerID)
          else if k = ''parent'' then map_option Str parent
          else if isTop \<and> k \<in> set layerAttrs
            then Some (Raw (case config k of None \<Rightarrow> None | Some r \<Rightarrow> r))
          else None)"


definition code_parent :: "lib \<Rightarrow> Digest list \<Rightarrow> nat \<Rightarrow> string option" where
  "code_parent L ds i =
     (if 0 < i \<and> spec_legacyID L ds (i - 1) \<noteq> '''' then Some (spec_legacyID L ds (i - 1))
      else None)"

text \<open>
  The three entries of a legacy layer directory (4.3): the symlink \<open>layer.tar\<close> to the
  physical layer one directory up, the file \<open>VERSION\<close> holding \<open>1.0\<close>, and the file
  \<open>json\<close> holding the encoded configuration.
\<close>

definition layerEntries ::
  "lib \<Rightarrow> (string \<Rightarrow> cfgval option) \<Rightarrow> string \<Rightarrow> string \<Rightarrow> (Header \<times> string) list" where
  "layerEntries L m layerID plp =
     [(symlinkHeader (filepath_Join L layerID ''layer.tar'') (filepath_Join L ''..'' plp), []),
      (fileHeader (filepath_Join L layerID ''VERSION'') 3, ''1.0''),
      (fileHeader (filepath_Join L layerID ''json'')
         (int (length (marshalled L (LayerConfig m)))), marshalled L (LayerConfig m))]"

definition layerEntriesAt ::
  "lib \<Rightarrow> (string \<Rightarrow> RawMessage option option) \<Rightarrow> Digest list \<Rightarrow> (nat \<Rightarrow> string option)
   \<Rightarrow> nat \<Rightarrow> (Header \<times> string) list" where
  "layerEntriesAt L config ds parent i =
     layerEntries L
       (spec_layerConfig config (spec_legacyID L ds i) (parent i) (Suc i = length ds))
       (spec_legacyID L ds i) (hexOf (ds ! i) @ ''.tar'')"

text \<open>
  The repositories index one call builds (4.4): every repository name among the tags maps
  to the tags given for it, each to the root layer ID.
\<close>

definition spec_repositories ::
  "string \<Rightarrow> NamedTagged list \<Rightarrow> (string \<Rightarrow> (string \<Rightarrow> string option) option)" where
  "spec_repositories rootLayerID repoTags =
     (\<lambda>name. if name \<in> set (map Name repoTags)
              then Some (\<lambda>t. if list_ex (\<lambda>r. Name r = name \<and> Tag r = t) repoTags
                              then Some rootLayerID else None)
              else None)"

text \<open>
  What a run without error or panic implies for layer \<open>k\<close>: its chain ID and its digest
  have a hex part, and its configuration was encoded.
\<close>

definition layerWritten ::
  "lib \<Rightarrow> (string \<Rightarrow> RawMessage option option) \<Rightarrow> Digest list \<Rightarrow> (nat \<Rightarrow> string option)
   \<Rightarrow> nat \<Rightarrow> bool" where
  "layerWritten L config ds parent k =
     (Hex (spec_chainID L ds k) = Some (spec_legacyID L ds k)
      \<and> Hex (ds ! k) = Some (hexOf (ds ! k))
      \<and> json_Marshal L (LayerConfig (spec_layerConfig config (spec_legacyID L ds k)
                                       (parent k) (Suc k = length ds)))
          = Inr (marshalled L (LayerConfig (spec_layerConfig config (spec_legacyID L ds k)
                                       (parent k) (Suc k = length ds)))))"

text \<open>
  An image of two layers for the example library, and the six entries its legacy metadata
  takes; the stand-in hash of the second chain string, 19 bytes long, is 19.
\<close>

definition exampleLayers :: "Schema2Descriptor list" where
  "exampleLayers =
     [\<lparr>MediaType = ''layer'', desc_Size = 5, desc_Digest = ''sha256:aa''\<rparr>,
      \<lparr>MediaType = ''layer'', desc_Size = 7, desc_Digest = ''sha256:bb''\<rparr>]"

definition exampleArchive :: "(Header \<times> string) list" where
  "exampleArchive =
     [(symlinkHeader ''aa/layer.tar'' ''../aa.tar'', []),
      (fileHeader ''aa/VERSION'' 3, ''1.0''),
      (fileHeader ''aa/json'' 6, ''id=aa;''),
      (symlinkHeader (hex256 19 @ ''/layer.tar'') ''../bb.tar'', []),
      (fileHeader (hex256 19 @ ''/VERSION'') 3, ''1.0''),
      (fileHeader (hex256 19 @ ''/json'') 187,
       ''id='' @ hex256 19 @ '';parent=aa;architecture=null;config=null;container=null;''
       @ ''container_config=null;created=null;docker_version=null;os=linux;'')]"


section \<open>Properties\<close>

subsection \<open>The blob registry\<close>

lemma blobs_foldl_recordBlob:
  "blobs (foldl recordBlob w infos) d =
     (case find (\<lambda>b. Digest b = d) (rev infos) of Some b \<Rightarrow> Some b | None \<Rightarrow> blobs w d)"
  by (induction infos rule: rev_induct) (auto simp: recordBlob_def)

text \<open>
  C3. On a writer that has recorded the blobs \<open>infos\<close>, in that order, since it was
  created, \<open>tryReusingBlob\<close> returns an error for the empty digest; for a digest that was
  recorded it returns true, no error, and a \<open>BlobInfo\<close> with the digest asked for and the
  size of the latest record of that digest; for any other digest it returns false, the
  empty \<open>BlobInfo\<close> and no error.
\<close>

theorem tryReusingBlob_registry:
  "tryReusingBlob (foldl recordBlob (NewWriter d) infos) info =
     (if Digest info = '''' then (False, emptyBlobInfo, Some UnknownDigest)
      else case find (\<lambda>b. Digest b = Digest info) (rev infos) of
        Some b \<Rightarrow> (True, \<lparr>Digest = Digest info, Size = Size b\<rparr>, None)
      | None \<Rightarrow> (False, emptyBlobInfo, None))"
  by (simp add: tryReusingBlob_def blobs_foldl_recordBlob NewWriter_def split: option.splits)

theorem tryReusingBlob_registry_witness:
  "tryReusingBlob
     (foldl recordBlob (NewWriter None)
        [\<lparr>Digest = ''sha256:aa'', Size = 7\<rparr>, \<lparr>Digest = ''sha256:bb'', Size = 9\<rparr>,
         \<lparr>Digest = ''sha256:aa'', Size = 11\<rparr>])
     \<lparr>Digest = ''sha256:aa'', Size = 0\<rparr>
   = (True, \<lparr>Digest = ''sha256:aa'', Size = 11\<rparr>, None)
   \<and> tryReusingBlob
     (foldl recordBlob (NewWriter None) [\<lparr>Digest = ''sha256:aa'', Size = 7\<rparr>])
     \<lparr>Digest = ''sha256:cc'', Size = 3\<rparr>
   = (False, emptyBlobInfo, None)
   \<and> tryReusingBlob
     (foldl recordBlob (NewWriter None) [\<lparr>Digest = '''', Size = 7\<rparr>])
     \<lparr>Digest = '''', Size = 7\<rparr>
   = (False, emptyBlobInfo, Some UnknownDigest)"
  using tryReusingBlob_registry [of None
      "[\<lparr>Digest = ''sha256:aa'', Size = 7\<rparr>, \<lparr>Digest = ''sha256:bb'', Size = 9\<rparr>,
        \<lparr>Digest = ''sha256:aa'', Size = 11\<rparr>]" "\<lparr>Digest = ''sha256:aa'', Size = 0\<rparr>"]
    tryReusingBlob_registry [of None "[\<lparr>Digest = ''sha256:aa'', Size = 7\<rparr>]"
      "\<lparr>Digest = ''sha256:cc'', Size = 3\<rparr>"]
    tryReusingBlob_registry [of None "[\<lparr>Digest = '''', Size = 7\<rparr>]"
      "\<lparr>Digest = '''', Size = 7\<rparr>"]
  by simp

subsection \<open>The tar stream and the two emitters\<close>

lemma IsRegular_0444: "IsRegular 292"
  by (simp add: IsRegular_def ModeType_def ModeDir_def ModeSymlink_def ModeNamedPipe_def
      ModeSocket_def ModeDevice_def ModeCharDevice_def ModeIrregular_def)

lemma ModeSymlink_facts:
  "\<not> IsRegular ModeSymlink" "ModeSymlink \<noteq> 0" "Perm ModeSymlink = 0"
  "special_bits ModeSymlink = 0" "special_bits 292 = 0" "Perm 292 = 292"
  by (simp_all add: IsRegular_def ModeType_def ModeDir_def ModeSymlink_def ModeNamedPipe_def
      ModeSocket_def ModeDevice_def ModeCharDevice_def ModeIrregular_def Perm_def ModePerm_def
      special_bits_def ModeSetuid_def ModeSetgid_def ModeSticky_def)

lemma FileInfoHeader_file:
  "FileInfoHeader \<lparr>path = p, size' = n, isSymlink = False\<rparr> link = Inr (fileHeader p n)"
  by (simp add: FileInfoHeader_def fi_Mode_def fi_Name_def fi_Size_def fi_ModTime_def Unix_def
      IsRegular_0444 ModeSymlink_facts fileHeader_def)

lemma FileInfoHeader_symlink:
  "FileInfoHeader \<lparr>path = p, size' = n, isSymlink = True\<rparr> link = Inr (symlinkHeader p link)"
  by (simp add: FileInfoHeader_def fi_Mode_def fi_Name_def fi_Size_def fi_ModTime_def Unix_def
      fi_IsDir_def ModeSymlink_facts Let_def symlinkHeader_def)

lemma WriteHeader_ok:
  "WriteHeader tw hdr = (None, t) \<Longrightarrow> entries t = entries tw @ [(hdr, [])]"
  by (auto simp: WriteHeader_def split: option.splits if_splits nat.splits)

lemma WriteHeader_entries:
  "WriteHeader tw hdr = (e, t) \<Longrightarrow>
     entries t = entries tw \<or> (e = None \<and> entries t = entries tw @ [(hdr, [])])"
  by (auto simp: WriteHeader_def split: option.splits if_splits nat.splits)

lemma append_payload_headers:
  "map fst (entries (append_payload bs t)) = map fst (entries t)"
  by (cases "entries t" rule: rev_cases) (auto simp: append_payload_def)

lemma io_Copy_headers:
  "io_Copy t src = (r, t') \<Longrightarrow> map fst (entries t') = map fst (entries t)"
  unfolding io_Copy_def Let_def
  by (auto simp: append_payload_headers split: option.splits if_splits)


lemma io_Copy_ok:
  assumes "entries t = es @ [(h, [])]" and "io_Copy t src = ((n, None), t')"
  shows "entries t' = es @ [(h, data src)] \<and> n = int (length (data src))"
proof (cases "data src = []")
  case True
  with assms show ?thesis by (simp add: io_Copy_def)
next
  case False
  with assms(2) show ?thesis
    unfolding io_Copy_def Let_def
    by (auto simp: append_payload_def assms(1) min_def split: option.splits if_splits)
qed

lemma sendFile_std:
  assumes "tar_FileInfoHeader L = FileInfoHeader"
  shows "sendFile L w p n s =
     (case WriteHeader (tar w) (fileHeader p n) of
        (Some e, t) \<Rightarrow> (Some e, w\<lparr>tar := t\<rparr>)
      | (None, t) \<Rightarrow>
          (case io_Copy t s of
             ((k, Some e), t') \<Rightarrow> (Some e, w\<lparr>tar := t'\<rparr>)
           | ((k, None), t') \<Rightarrow>
               if k \<noteq> n then (Some (SizeMismatch p n k), w\<lparr>tar := t'\<rparr>)
               else (None, w\<lparr>tar := t'\<rparr>)))"
  by (simp add: sendFile_def assms FileInfoHeader_file)

lemma sendSymlink_std:
  assumes "tar_FileInfoHeader L = FileInfoHeader"
  shows "sendSymlink L w p target =
     (case WriteHeader (tar w) (symlinkHeader p target) of (e, t) \<Rightarrow> (e, w\<lparr>tar := t\<rparr>))"
  by (simp add: sendSymlink_def assms FileInfoHeader_symlink)

lemma sendFile_ok:
  assumes std: "tar_FileInfoHeader L = FileInfoHeader"
    and run: "sendFile L w p n s = (None, w')"
  shows "entries (tar w') = entries (tar w) @ [(fileHeader p n, data s)]
         \<and> int (length (data s)) = n \<and> blobs w' = blobs w"
proof -
  obtain eh t where wh: "WriteHeader (tar w) (fileHeader p n) = (eh, t)"
    by (cases "WriteHeader (tar w) (fileHeader p n)")
  obtain k ec t' where cp: "io_Copy t s = ((k, ec), t')"
    by (cases "io_Copy t s") auto
  from run wh cp have eh: "eh = None" and ec: "ec = None" and k: "k = n" and w': "w' = w\<lparr>tar := t'\<rparr>"
    by (auto simp: sendFile_std [OF std] split: option.splits if_splits)
  from wh eh have "entries t = entries (tar w) @ [(fileHeader p n, [])]"
    by (simp add: WriteHeader_ok)
  from io_Copy_ok [OF this] cp ec k w' show ?thesis by simp
qed

lemma sendBytes_ok:
  assumes "tar_FileInfoHeader L = FileInfoHeader" and "sendBytes L w p b = (None, w')"
  shows "entries (tar w') = entries (tar w) @ [(fileHeader p (int (length b)), b)]
         \<and> blobs w' = blobs w"
  using sendFile_ok [OF assms(1), of w p "int (length b)" "bytes_NewReader b" w'] assms(2)
  by (simp add: sendBytes_def bytes_NewReader_def)

lemma sendSymlink_ok:
  assumes "tar_FileInfoHeader L = FileInfoHeader" and "sendSymlink L w p target = (None, w')"
  shows "entries (tar w') = entries (tar w) @ [(symlinkHeader p target, [])]
         \<and> blobs w' = blobs w"
  using assms(2) WriteHeader_ok [of "tar w" "symlinkHeader p target"]
  by (auto simp: sendSymlink_std [OF assms(1)] split: prod.splits)

text \<open>
  C5. With the standard library's header constructor, for every call of \<open>sendFile\<close>: if
  the number of payload bytes the call added to the tar stream differs from
  \<open>expectedSize\<close>, the call returns an error; and when it returns no error, the stream
  has gained exactly one entry, whose header announces \<open>expectedSize\<close> bytes and whose
  payload is the whole stream, \<open>expectedSize\<close> bytes long.
\<close>

theorem sendFile_size_checked:
  assumes std: "tar_FileInfoHeader L = FileInfoHeader"
    and run: "sendFile L w p expectedSize stream = (e, w')"
  shows "(int (payload_bytes (tar w')) - int (payload_bytes (tar w)) \<noteq> expectedSize
            \<longrightarrow> e \<noteq> None)
       \<and> (e = None \<longrightarrow>
            entries (tar w') = entries (tar w) @ [(fileHeader p expectedSize, data stream)]
            \<and> int (length (data stream)) = expectedSize)"
proof -
  have "e = None \<Longrightarrow>
      entries (tar w') = entries (tar w) @ [(fileHeader p expectedSize, data stream)]
      \<and> int (length (data stream)) = expectedSize"
    using sendFile_ok [OF std, of w p expectedSize stream w'] run by simp
  moreover have "int (payload_bytes (tar w')) - int (payload_bytes (tar w)) = expectedSize"
    if "e = None"
    using calculation [OF that] by (simp add: payload_bytes_def)
  ultimately show ?thesis by blast
qed

text \<open>
  C9. If the header constructor fails inside \<open>sendSymlink\<close> or \<open>sendFile\<close>, the
  function returns no error and leaves the writer as it was: nothing is written and the
  failure does not reach the caller.
\<close>

theorem header_error_swallowed:
  "(tar_FileInfoHeader L \<lparr>path = p, size' = 0, isSymlink = True\<rparr> target = Inl e
      \<longrightarrow> sendSymlink L w p target = (None, w))
   \<and> (tar_FileInfoHeader L \<lparr>path = p', size' = n, isSymlink = False\<rparr> '''' = Inl e'
      \<longrightarrow> sendFile L w p' n stream = (None, w))"
  by (simp add: sendSymlink_def sendFile_def)

theorem header_error_swallowed_witness:
  "tar_FileInfoHeader failingLib \<lparr>path = ''a/layer.tar'', size' = 0, isSymlink = True\<rparr> ''../b.tar''
     = Inl UnknownFileMode
   \<and> sendSymlink failingLib (NewWriter None) ''a/layer.tar'' ''../b.tar'' = (None, NewWriter None)
   \<and> tar_FileInfoHeader failingLib \<lparr>path = ''a/VERSION'', size' = 3, isSymlink = False\<rparr> ''''
     = Inl UnknownFileMode
   \<and> sendFile failingLib (NewWriter None) ''a/VERSION'' 3 (bytes_NewReader ''1.0'')
     = (None, NewWriter None)"
  using header_error_swallowed [of failingLib "''a/layer.tar''" "''../b.tar''" UnknownFileMode
      "NewWriter None" "''a/VERSION''" 3 UnknownFileMode "bytes_NewReader ''1.0''"]
  by (simp add: failingLib_def)

lemma sendFile_headers:
  assumes std: "tar_FileInfoHeader L = FileInfoHeader"
    and run: "sendFile L w p n s = (e, w')"
  shows "headers w' = headers w \<or> headers w' = headers w @ [fileHeader p n]"
proof -
  obtain eh t where wh: "WriteHeader (tar w) (fileHeader p n) = (eh, t)"
    by (cases "WriteHeader (tar w) (fileHeader p n)")
  obtain r t' where cp: "io_Copy t s = (r, t')"
    by (cases "io_Copy t s")
  from run wh cp have "tar w' = t \<or> tar w' = t'"
    by (auto simp: sendFile_std [OF std] split: option.splits if_splits prod.splits)
  moreover have "map fst (entries t') = map fst (entries t)"
    using cp by (rule io_Copy_headers)
  ultimately have "headers w' = map fst (entries t)"
    by (auto simp: headers_def)
  with WriteHeader_entries [OF wh] show ?thesis
    by (auto simp: headers_def)
qed

lemma sendSymlink_headers:
  assumes std: "tar_FileInfoHeader L = FileInfoHeader"
    and run: "sendSymlink L w p target = (e, w')"
  shows "headers w' = headers w \<or> headers w' = headers w @ [symlinkHeader p target]"
  using run WriteHeader_entries [of "tar w" "symlinkHeader p target"]
  by (auto simp: sendSymlink_std [OF std] headers_def split: prod.splits)

lemma fixedMetadata_emitted:
  "fixedMetadata (fileHeader p n)" "fixedMetadata (symlinkHeader p target)"
  by (simp_all add: fixedMetadata_def fileHeader_def symlinkHeader_def Unix_def)

lemma sendFile_fixed:
  assumes "tar_FileInfoHeader L = FileInfoHeader" and "list_all fixedMetadata (headers w)"
    and "sendFile L w p n s = (e, w')"
  shows "list_all fixedMetadata (headers w')"
  using sendFile_headers [OF assms(1,3)] assms(2) by (auto simp: fixedMetadata_emitted)

lemma sendBytes_fixed:
  assumes "tar_FileInfoHeader L = FileInfoHeader" and "list_all fixedMetadata (headers w)"
    and "sendBytes L w p b = (e, w')"
  shows "list_all fixedMetadata (headers w')"
  using assms sendFile_fixed unfolding sendBytes_def by blast

lemma sendSymlink_fixed:
  assumes "tar_FileInfoHeader L = FileInfoHeader" and "list_all fixedMetadata (headers w)"
    and "sendSymlink L w p target = (e, w')"
  shows "list_all fixedMetadata (headers w')"
  using sendSymlink_headers [OF assms(1,3)] assms(2) by (auto simp: fixedMetadata_emitted)

lemma layerBody_fixed:
  assumes std: "tar_FileInfoHeader L = FileInfoHeader"
    and inv: "list_all fixedMetadata (headers w)"
    and run: "layerBody L configBytes isLast w chainID lastLayerID l = (r, w')"
  shows "list_all fixedMetadata (headers w')"
  using run inv unfolding layerBody_def Let_def
  by (auto split: option.splits prod.splits sum.splits)
     (blast intro: sendSymlink_fixed [OF std] sendBytes_fixed [OF std])+

lemma layerLoop_fixed:
  assumes std: "tar_FileInfoHeader L = FileInfoHeader"
  shows "list_all fixedMetadata (headers w) \<Longrightarrow>
     layerLoop L configBytes n w chainID lastLayerID layerPaths i ls = (r, w') \<Longrightarrow>
     list_all fixedMetadata (headers w')"
proof (induction ls arbitrary: w chainID lastLayerID layerPaths i)
  case Nil
  then show ?case by simp
next
  case (Cons l ls)
  obtain rb wb where body:
    "layerBody L configBytes (int i = int n - 1) w chainID lastLayerID l = (rb, wb)"
    by (cases "layerBody L configBytes (int i = int n - 1) w chainID lastLayerID l")
  have invb: "list_all fixedMetadata (headers wb)"
    using layerBody_fixed [OF std Cons.prems(1) body] .
  show ?case
  proof (cases rb)
    case Panicked
    with Cons.prems(2) body invb show ?thesis by simp
  next
    case (Return x)
    show ?thesis
    proof (cases x)
      case (Inr e)
      with Return Cons.prems(2) body invb show ?thesis by simp
    next
      case (Inl st)
      obtain c' lid' plp where st: "st = (c', lid', plp)" by (cases st)
      with Inl Return Cons.prems(2) body
      have "layerLoop L configBytes n wb c' lid' (layerPaths @ [plp]) (Suc i) ls = (r, w')"
        by simp
      from Cons.IH [OF invb this] show ?thesis .
    qed
  qed
qed

lemma createRepositoriesFile_fixed:
  assumes std: "tar_FileInfoHeader L = FileInfoHeader"
    and inv: "list_all fixedMetadata (headers w)"
    and run: "createRepositoriesFile L w rootLayerID repoTags = (e, w')"
  shows "list_all fixedMetadata (headers w')"
  using run inv unfolding createRepositoriesFile_def Let_def
  by (auto split: option.splits prod.splits sum.splits intro: sendBytes_fixed [OF std])

lemma createManifest_fixed:
  assumes std: "tar_FileInfoHeader L = FileInfoHeader"
    and inv: "list_all fixedMetadata (headers w)"
    and run: "createManifest L w configDigest layerPaths repoTags = (r, w')"
  shows "list_all fixedMetadata (headers w')"
  using run inv unfolding createManifest_def Let_def
  by (auto split: option.splits prod.splits sum.splits intro: sendBytes_fixed [OF std])

text \<open>
  C6. A \<open>tarFI\<close> always reports the epoch as its modification time, the symlink mode
  when it is a symlink and octal 0444 otherwise. With the standard library's header
  constructor, \<open>sendFile\<close> adds at most one header, a regular file with mode 0444 dated
  at the epoch, whatever the stream holds; \<open>sendSymlink\<close> adds at most one header, a
  symlink of size 0 dated at the epoch; and every header that
  \<open>writeLegacyLayerMetadata\<close>, \<open>createRepositoriesFile\<close> and \<open>createManifest\<close>
  add is of one of these two kinds.
\<close>

theorem emitted_metadata_fixed:
  assumes std: "tar_FileInfoHeader L = FileInfoHeader"
  shows "fi_ModTime fi = Unix 0 0
     \<and> fi_Mode fi = (if isSymlink fi then ModeSymlink else 292)
     \<and> (\<forall>e w'. sendFile L w p n s = (e, w') \<longrightarrow>
            headers w' = headers w
            \<or> headers w' = headers w @
                 [\<lparr>Typeflag = TypeReg, hdr_Name = p, Linkname = [], hdr_Size = n,
                   hdr_Mode = 292, hdr_ModTime = Unix 0 0\<rparr>])
     \<and> (\<forall>e w'. sendSymlink L w p target = (e, w') \<longrightarrow>
            headers w' = headers w
            \<or> headers w' = headers w @
                 [\<lparr>Typeflag = TypeSymlink, hdr_Name = p, Linkname = target, hdr_Size = 0,
                   hdr_Mode = 0, hdr_ModTime = Unix 0 0\<rparr>])
     \<and> (list_all fixedMetadata (headers w) \<longrightarrow>
            list_all fixedMetadata (headers (snd (writeLegacyLayerMetadata L w ls configBytes)))
          \<and> list_all fixedMetadata (headers (snd (createRepositoriesFile L w root repoTags)))
          \<and> list_all fixedMetadata (headers (snd (createManifest L w cd lps repoTags))))"
proof -
  have a: "fi_ModTime fi = Unix 0 0 \<and> fi_Mode fi = (if isSymlink fi then ModeSymlink else 292)"
    by (simp add: fi_ModTime_def fi_Mode_def)
  have b: "\<forall>e w'. sendFile L w p n s = (e, w') \<longrightarrow>
            headers w' = headers w
            \<or> headers w' = headers w @
                 [\<lparr>Typeflag = TypeReg, hdr_Name = p, Linkname = [], hdr_Size = n,
                   hdr_Mode = 292, hdr_ModTime = Unix 0 0\<rparr>]"
    using sendFile_headers [OF std, of w p n s] by (simp add: fileHeader_def Unix_def)
  have c: "\<forall>e w'. sendSymlink L w p target = (e, w') \<longrightarrow>
            headers w' = headers w
            \<or> headers w' = headers w @
                 [\<lparr>Typeflag = TypeSymlink, hdr_Name = p, Linkname = target, hdr_Size = 0,
                   hdr_Mode = 0, hdr_ModTime = Unix 0 0\<rparr>]"
    using sendSymlink_headers [OF std, of w p target] by (simp add: symlinkHeader_def Unix_def)
  have d: "list_all fixedMetadata (headers (snd (writeLegacyLayerMetadata L w ls configBytes)))
          \<and> list_all fixedMetadata (headers (snd (createRepositoriesFile L w root repoTags)))
          \<and> list_all fixedMetadata (headers (snd (createManifest L w cd lps repoTags)))"
    if inv: "list_all fixedMetadata (headers w)"
  proof (intro conjI)
    show "list_all fixedMetadata (headers (snd (writeLegacyLayerMetadata L w ls configBytes)))"
      unfolding writeLegacyLayerMetadata_def
      by (rule layerLoop_fixed [OF std inv]) (rule surjective_pairing)
    show "list_all fixedMetadata (headers (snd (createRepositoriesFile L w root repoTags)))"
      by (rule createRepositoriesFile_fixed [OF std inv]) (rule surjective_pairing)
    show "list_all fixedMetadata (headers (snd (createManifest L w cd lps repoTags)))"
      by (rule createManifest_fixed [OF std inv]) (rule surjective_pairing)
  qed
  from a b c d show ?thesis by blast
qed

lemmas run_defs =
  exampleLib_def sendFile_def sendSymlink_def sendBytes_def FileInfoHeader_file
  FileInfoHeader_symlink WriteHeader_def NewWriter_def tar_NewWriter_def remaining_def
  io_Copy_def bytes_NewReader_def isHeaderOnlyType_def append_payload_def

theorem emitted_metadata_fixed_witness:
  "tar_FileInfoHeader exampleLib = FileInfoHeader
   \<and> fi_Mode \<lparr>path = ''a/layer.tar'', size' = 0, isSymlink = True\<rparr> = ModeSymlink
   \<and> fi_ModTime \<lparr>path = ''a/layer.tar'', size' = 0, isSymlink = True\<rparr> = (0, 0)
   \<and> headers (snd (sendSymlink exampleLib (NewWriter None) ''a/layer.tar'' ''../b.tar''))
       = [\<lparr>Typeflag = TypeSymlink, hdr_Name = ''a/layer.tar'', Linkname = ''../b.tar'',
           hdr_Size = 0, hdr_Mode = 0, hdr_ModTime = (0, 0)\<rparr>]
   \<and> headers (snd (sendFile exampleLib (NewWriter None) ''a/layer.tar'' 3 (bytes_NewReader ''1.0'')))
       = [\<lparr>Typeflag = TypeReg, hdr_Name = ''a/layer.tar'', Linkname = [],
           hdr_Size = 3, hdr_Mode = 292, hdr_ModTime = (0, 0)\<rparr>]
   \<and> list_all fixedMetadata (headers (NewWriter None))
   \<and> list_all fixedMetadata
        (headers (snd (createManifest exampleLib (NewWriter None) ''sha256:cc'' [''aa.tar'']
                         [\<lparr>Name = ''busybox'', Tag = ''latest''\<rparr>])))"
  using emitted_metadata_fixed [of exampleLib
      "\<lparr>path = ''a/layer.tar'', size' = 0, isSymlink = True\<rparr>" "NewWriter None"
      "''a/layer.tar''" 3 "bytes_NewReader ''1.0''" "''../b.tar''" "[]" "''{}''" "''''"
      "[\<lparr>Name = ''busybox'', Tag = ''latest''\<rparr>]" "''sha256:cc''" "[''aa.tar'']"]
  by (simp add: run_defs headers_def fileHeader_def symlinkHeader_def Unix_def)

theorem sendFile_size_checked_witness:
  "tar_FileInfoHeader exampleLib = FileInfoHeader
   \<and> sendFile exampleLib (NewWriter None) ''f'' 3 (bytes_NewReader ''abc'')
       = (None, \<lparr>tar = \<lparr>entries = [(fileHeader ''f'' 3, ''abc'')], err = None, dest = None\<rparr>,
                 blobs = Map.empty\<rparr>)
   \<and> sendFile exampleLib (NewWriter None) ''f'' 3 (bytes_NewReader ''ab'')
       = (Some (SizeMismatch ''f'' 3 2),
          \<lparr>tar = \<lparr>entries = [(fileHeader ''f'' 3, ''ab'')], err = None, dest = None\<rparr>,
           blobs = Map.empty\<rparr>)
   \<and> payload_bytes (tar (NewWriter None)) = 0
   \<and> payload_bytes \<lparr>entries = [(fileHeader ''f'' 3, ''abc'')], err = None, dest = None\<rparr> = 3
   \<and> payload_bytes \<lparr>entries = [(fileHeader ''f'' 3, ''ab'')], err = None, dest = None\<rparr> = 2"
  using sendFile_size_checked [of exampleLib "NewWriter None" "''f''" 3 "bytes_NewReader ''abc''"
      None "\<lparr>tar = \<lparr>entries = [(fileHeader ''f'' 3, ''abc'')], err = None, dest = None\<rparr>,
                 blobs = Map.empty\<rparr>"]
    sendFile_size_checked [of exampleLib "NewWriter None" "''f''" 3 "bytes_NewReader ''ab''"
      "Some (SizeMismatch ''f'' 3 2)"
      "\<lparr>tar = \<lparr>entries = [(fileHeader ''f'' 3, ''ab'')], err = None, dest = None\<rparr>,
                 blobs = Map.empty\<rparr>"]
  by (simp add: run_defs fileHeader_def payload_bytes_def)

subsection \<open>The manifest and the repositories index\<close>

lemma foldl_RepoTags:
  "foldl (\<lambda>it t. it\<lparr>RepoTags := RepoTags it @ [refString t]\<rparr>) item repoTags =
     item\<lparr>RepoTags := RepoTags item @ map refString repoTags\<rparr>"
  by (induction repoTags arbitrary: item) simp_all

lemma Hex_hexOf: "Hex d = Some h \<Longrightarrow> hexOf d = h"
  by (simp add: hexOf_def)

lemma marshalled_Inr: "json_Marshal L v = Inr b \<Longrightarrow> marshalled L v = b"
  by (simp add: marshalled_def)

text \<open>
  C4. When \<open>createManifest\<close> returns without an error (standard header constructor), the
  stream has gained exactly one entry, the regular file \<open>manifest.json\<close>, and its
  content is the encoding of a list of exactly one item: \<open>Config\<close> is the hex part of the
  config digest followed by \<open>.json\<close>, \<open>RepoTags\<close> are the strings name, colon, tag of the
  supplied tags in their order (the name as supplied, qualification included), \<open>Layers\<close>
  are the supplied paths in their order, \<open>Parent\<close> is empty and \<open>LayerSources\<close> is nil.
\<close>

theorem createManifest_item:
  assumes std: "tar_FileInfoHeader L = FileInfoHeader"
    and run: "createManifest L w configDigest layerPaths repoTags = (Return None, w')"
    and items: "items = [\<lparr>Config = hexOf configDigest @ ''.json'',
                           RepoTags = map (\<lambda>t. Name t @ '':'' @ Tag t) repoTags,
                           Layers = layerPaths, Parent = '''', LayerSources = None\<rparr>]"
  shows "Hex configDigest = Some (hexOf configDigest)
     \<and> json_Marshal L (Manifest items) = Inr (marshalled L (Manifest items))
     \<and> entries (tar w') = entries (tar w) @
          [(fileHeader ''manifest.json'' (int (length (marshalled L (Manifest items)))),
            marshalled L (Manifest items))]"
proof -
  from run obtain h where h: "Hex configDigest = Some h"
    by (auto simp: createManifest_def configPath_def split: option.splits)
  have it: "items = [\<lparr>Config = h @ ''.json'', RepoTags = map refString repoTags,
                       Layers = layerPaths, Parent = '''', LayerSources = None\<rparr>]"
    using items h by (simp add: Hex_hexOf refString_def [abs_def])
  from run h it obtain b where b: "json_Marshal L (Manifest items) = Inr b"
    and sb: "sendBytes L w manifestFileName b = (None, w')"
    by (auto simp: createManifest_def configPath_def foldl_RepoTags Let_def
        split: sum.splits prod.splits)
  from sendBytes_ok [OF std sb] b h show ?thesis
    by (simp add: marshalled_Inr Hex_hexOf manifestFileName_def)
qed

lemma addRepoTags_general:
  "addRepoTags root m repoTags =
     (\<lambda>name. if name \<in> set (map Name repoTags)
              then Some (\<lambda>t. if list_ex (\<lambda>r. Name r = name \<and> Tag r = t) repoTags
                              then Some root
                              else (case m name of None \<Rightarrow> None | Some ts \<Rightarrow> ts t))
              else m name)"
proof (induction repoTags arbitrary: m)
  case Nil
  show ?case by simp
next
  case (Cons r rest)
  show ?case
    by (cases "m (Name r)") (auto simp: Cons.IH fun_eq_iff list_ex_iff image_iff)
qed

lemma addRepoTags_spec:
  "addRepoTags root Map.empty repoTags = spec_repositories root repoTags"
  by (auto simp: addRepoTags_general spec_repositories_def fun_eq_iff)

text \<open>
  C7, as amended. When a call of \<open>createRepositoriesFile\<close> returns without an error
  (standard header constructor), the stream has gained exactly one entry, the regular file
  \<open>repositories\<close>, and its content is the encoding of the map built from the tags of
  that call alone: the repository name of each supplied tag maps to a map that sends the
  tag to the root layer ID of that call, and nothing else is in it.
\<close>

theorem createRepositoriesFile_per_call:
  assumes std: "tar_FileInfoHeader L = FileInfoHeader"
    and run: "createRepositoriesFile L w rootLayerID repoTags = (None, w')"
    and b: "b = marshalled L (Repositories (spec_repositories rootLayerID repoTags))"
  shows "json_Marshal L (Repositories (spec_repositories rootLayerID repoTags)) = Inr b
     \<and> entries (tar w') = entries (tar w) @ [(fileHeader ''repositories'' (int (length b)), b)]
     \<and> (\<forall>r \<in> set repoTags. \<exists>ts. spec_repositories rootLayerID repoTags (Name r) = Some ts
                                  \<and> ts (Tag r) = Some rootLayerID)"
proof -
  from run obtain b' where
    m: "json_Marshal L (Repositories (spec_repositories rootLayerID repoTags)) = Inr b'"
    and sb: "sendBytes L w legacyRepositoriesFileName b' = (None, w')"
    by (auto simp: createRepositoriesFile_def addRepoTags_spec Let_def
        split: sum.splits prod.splits option.splits)
  have "\<forall>r \<in> set repoTags. \<exists>ts. spec_repositories rootLayerID repoTags (Name r) = Some ts
                                  \<and> ts (Tag r) = Some rootLayerID"
    by (auto simp: spec_repositories_def list_ex_iff)
  with sendBytes_ok [OF std sb] m b show ?thesis
    by (simp add: marshalled_Inr legacyRepositoriesFileName_def)
qed

lemmas example_defs =
  exampleMarshal_def exampleUnmarshal_def showRepo_def exampleRefs_def showCfg_def
  layerAttrs_def Hex_def hexOf_def marshalled_def configOf_def legacyLayerFileName_def
  legacyVersionFileName_def legacyConfigFileName_def legacyRepositoriesFileName_def
  manifestFileName_def

theorem createManifest_item_witness:
  "tar_FileInfoHeader exampleLib = FileInfoHeader
   \<and> createManifest exampleLib (NewWriter None) ''sha256:cc'' [''aa.tar'', ''bb.tar'']
        [\<lparr>Name = ''docker.io/library/busybox'', Tag = ''latest''\<rparr>]
       = (Return None,
          \<lparr>tar = \<lparr>entries =
                    [(fileHeader ''manifest.json'' 53,
                      ''cc.json docker.io/library/busybox:latest aa.tarbb.tar'')],
                  err = None, dest = None\<rparr>,
           blobs = Map.empty\<rparr>)
   \<and> json_Marshal exampleLib
        (Manifest [\<lparr>Config = ''cc.json'', RepoTags = [''docker.io/library/busybox:latest''],
                    Layers = [''aa.tar'', ''bb.tar''], Parent = '''', LayerSources = None\<rparr>])
       = Inr ''cc.json docker.io/library/busybox:latest aa.tarbb.tar''"
  using createManifest_item [where L = exampleLib and w = "NewWriter None"
      and configDigest = "''sha256:cc''" and layerPaths = "[''aa.tar'', ''bb.tar'']"
      and repoTags = "[\<lparr>Name = ''docker.io/library/busybox'', Tag = ''latest''\<rparr>]"
      and w' = "\<lparr>tar = \<lparr>entries =
                    [(fileHeader ''manifest.json'' 53,
                      ''cc.json docker.io/library/busybox:latest aa.tarbb.tar'')],
                  err = None, dest = None\<rparr>,
           blobs = Map.empty\<rparr>"
      and items = "[\<lparr>Config = ''cc.json'', RepoTags = [''docker.io/library/busybox:latest''],
                    Layers = [''aa.tar'', ''bb.tar''], Parent = '''', LayerSources = None\<rparr>]"]
  by (simp add: run_defs example_defs createManifest_def configPath_def refString_def
      fileHeader_def)

theorem createRepositoriesFile_per_call_witness:
  "tar_FileInfoHeader exampleLib = FileInfoHeader
   \<and> createRepositoriesFile exampleLib (NewWriter None) ''id1''
        [\<lparr>Name = ''busybox'', Tag = ''latest''\<rparr>, \<lparr>Name = ''alpine'', Tag = ''3''\<rparr>,
         \<lparr>Name = ''busybox'', Tag = ''latest''\<rparr>]
       = (None,
          \<lparr>tar = \<lparr>entries = [(fileHeader ''repositories'' 32,
                                 ''busybox:latest=id1;alpine:3=id1;'')],
                  err = None, dest = None\<rparr>,
           blobs = Map.empty\<rparr>)"
  using createRepositoriesFile_per_call [where L = exampleLib and w = "NewWriter None"
      and rootLayerID = "''id1''"
      and repoTags = "[\<lparr>Name = ''busybox'', Tag = ''latest''\<rparr>, \<lparr>Name = ''alpine'', Tag = ''3''\<rparr>,
         \<lparr>Name = ''busybox'', Tag = ''latest''\<rparr>]"
      and w' = "\<lparr>tar = \<lparr>entries = [(fileHeader ''repositories'' 32,
                                 ''busybox:latest=id1;alpine:3=id1;'')],
                  err = None, dest = None\<rparr>,
           blobs = Map.empty\<rparr>"
      and b = "''busybox:latest=id1;alpine:3=id1;''"]
  by (simp add: run_defs example_defs createRepositoriesFile_def fileHeader_def)

text \<open>
  C7 as stated fails: the map is not folded across the images of an archive. After a call
  for a first image (\<open>busybox:latest\<close>, root \<open>id1\<close>) and a call for a second
  (\<open>alpine:3\<close>, root \<open>id2\<close>) on the same writer, the archive holds two \<open>repositories\<close>
  files, and the map of the second call has no entry for the repository of the first.
\<close>

theorem repositories_not_across_images:
  "createRepositoriesFile exampleLib
     (snd (createRepositoriesFile exampleLib (NewWriter None) ''id1''
             [\<lparr>Name = ''busybox'', Tag = ''latest''\<rparr>]))
     ''id2'' [\<lparr>Name = ''alpine'', Tag = ''3''\<rparr>]
   = (None,
      \<lparr>tar = \<lparr>entries = [(fileHeader ''repositories'' 19, ''busybox:latest=id1;''),
                          (fileHeader ''repositories'' 13, ''alpine:3=id2;'')],
              err = None, dest = None\<rparr>,
       blobs = Map.empty\<rparr>)
   \<and> addRepoTags ''id2'' Map.empty [\<lparr>Name = ''alpine'', Tag = ''3''\<rparr>] ''busybox'' = None"
  by (simp add: run_defs example_defs createRepositoriesFile_def fileHeader_def)

subsection \<open>The legacy layer metadata\<close>



lemma Hex_Some_nonempty: "Hex d = Some h \<Longrightarrow> d \<noteq> []"
  by (auto simp: Hex_def split: if_splits)

lemma copy_attrs_eq:
  "copy_attrs config m attrs =
     (\<lambda>k. if k \<in> set attrs then Some (Raw (case config k of None \<Rightarrow> None | Some r \<Rightarrow> r))
          else m k)"
  by (induction attrs arbitrary: m) (auto simp: fun_eq_iff)

lemma layerConfigFor_ok:
  assumes "layerConfigFor L configBytes isLast layerID lastLayerID = Inr m"
  shows "m = spec_layerConfig (configOf L configBytes) layerID
               (if lastLayerID \<noteq> '''' then Some lastLayerID else None) isLast"
proof -
  define base where "base = (if lastLayerID \<noteq> '''' then [''id'' \<mapsto> Str layerID, ''parent'' \<mapsto> Str lastLayerID]
                             else [''id'' \<mapsto> Str layerID])"
  have notattr: "''id'' \<notin> set layerAttrs" "''parent'' \<notin> set layerAttrs"
    by (simp_all add: layerAttrs_def)
  have base: "base = spec_layerConfig (configOf L configBytes) layerID
               (if lastLayerID \<noteq> '''' then Some lastLayerID else None) False"
    by (auto simp: base_def spec_layerConfig_def fun_eq_iff)
  show ?thesis
  proof (cases isLast)
    case False
    with assms have "m = base"
      by (simp add: layerConfigFor_def base_def Let_def)
    with base False show ?thesis by simp
  next
    case True
    with assms obtain config where c: "json_Unmarshal L configBytes = Inr config"
      by (auto simp: layerConfigFor_def Let_def split: sum.splits)
    with assms True have "m = copy_attrs config base layerAttrs"
      by (simp add: layerConfigFor_def base_def Let_def)
    then show ?thesis
      using True c notattr
      by (auto simp: base spec_layerConfig_def configOf_def copy_attrs_eq fun_eq_iff)
  qed
qed

lemma layerBody_ok:
  assumes std: "tar_FileInfoHeader L = FileInfoHeader"
    and run: "layerBody L configBytes isLast w c lid l = (Return (Inl (c', layerID, plp)), w')"
    and m: "m = spec_layerConfig (configOf L configBytes) layerID
                  (if lid \<noteq> '''' then Some lid else None) isLast"
  shows "c' = (if c = '''' then desc_Digest l
               else Canonical_FromString L (c @ '' '' @ desc_Digest l))"
    and "Hex c' = Some layerID"
    and "Hex (desc_Digest l) = Some (hexOf (desc_Digest l))"
    and "plp = hexOf (desc_Digest l) @ ''.tar''"
    and "json_Marshal L (LayerConfig m) = Inr (marshalled L (LayerConfig m))"
    and "entries (tar w') = entries (tar w) @ layerEntries L m layerID plp"
proof -
  from run have c': "c' = (if c = '''' then desc_Digest l
               else Canonical_FromString L (c @ '' '' @ desc_Digest l))"
    and hex: "Hex c' = Some layerID"
    and plp: "physicalLayerPath (desc_Digest l) = Some plp"
    unfolding layerBody_def Let_def
    by (auto split: option.splits prod.splits sum.splits)
  from run c' hex plp obtain w1 w2 m' b where
    s1: "sendSymlink L w (filepath_Join L layerID legacyLayerFileName)
           (filepath_Join L ''..'' plp) = (None, w1)"
    and s2: "sendBytes L w1 (filepath_Join L layerID legacyVersionFileName) ''1.0'' = (None, w2)"
    and cf: "layerConfigFor L configBytes isLast layerID lid = Inr m'"
    and mb: "json_Marshal L (LayerConfig m') = Inr b"
    and s3: "sendBytes L w2 (filepath_Join L layerID legacyConfigFileName) b = (None, w')"
    unfolding layerBody_def Let_def
    by (auto split: option.splits prod.splits sum.splits)
  have mm: "m' = m"
    using layerConfigFor_ok [OF cf] m by simp
  from plp obtain h where h: "Hex (desc_Digest l) = Some h" and plph: "plp = h @ ''.tar''"
    by (auto simp: physicalLayerPath_def)
  have e1: "entries (tar w1) = entries (tar w) @
      [(symlinkHeader (filepath_Join L layerID ''layer.tar'') (filepath_Join L ''..'' plp), [])]"
    using sendSymlink_ok [OF std s1] by (simp add: legacyLayerFileName_def)
  have e2: "entries (tar w2) = entries (tar w1) @
      [(fileHeader (filepath_Join L layerID ''VERSION'') 3, ''1.0'')]"
    using sendBytes_ok [OF std s2] by (simp add: legacyVersionFileName_def)
  have e3: "entries (tar w') = entries (tar w2) @
      [(fileHeader (filepath_Join L layerID ''json'') (int (length b)), b)]"
    using sendBytes_ok [OF std s3] by (simp add: legacyConfigFileName_def)
  show "c' = (if c = '''' then desc_Digest l
               else Canonical_FromString L (c @ '' '' @ desc_Digest l))"
    by (rule c')
  show "Hex c' = Some layerID" by (rule hex)
  show "Hex (desc_Digest l) = Some (hexOf (desc_Digest l))"
    using h by (simp add: hexOf_def)
  show "plp = hexOf (desc_Digest l) @ ''.tar''"
    using h plph by (simp add: hexOf_def)
  show "json_Marshal L (LayerConfig m) = Inr (marshalled L (LayerConfig m))"
    using mb mm by (simp add: marshalled_def)
  show "entries (tar w') = entries (tar w) @ layerEntries L m layerID plp"
    using mb mm e1 e2 e3 by (simp add: layerEntries_def marshalled_def)
qed

lemma drop_eq_ConsD:
  assumes "l # ls = drop i xs"
  shows "i < length xs \<and> xs ! i = l \<and> ls = drop (Suc i) xs"
proof -
  from assms have i: "i < length xs"
    by (cases "i < length xs") auto
  from Cons_nth_drop_Suc [OF i] assms have "xs ! i # drop (Suc i) xs = l # ls"
    by simp
  with i show ?thesis by simp
qed

lemma layerLoop_ok:
  assumes std: "tar_FileInfoHeader L = FileInfoHeader"
    and ds: "ds = map desc_Digest descs"
    and n: "n = length descs"
  shows "layerLoop L configBytes n w c lid lp i ls = (Return (paths, lastID, None), w') \<Longrightarrow>
     ls = drop i descs \<Longrightarrow> i \<le> n \<Longrightarrow>
     (i = 0 \<and> c = '''' \<and> lid = '''') \<or> (0 < i \<and> c = spec_chainID L ds (i - 1) \<and> Hex c = Some lid) \<Longrightarrow>
     entries (tar w') = entries (tar w) @
        concat (map (layerEntriesAt L (configOf L configBytes) ds (code_parent L ds)) [i..<n])
     \<and> paths = lp @ map (\<lambda>k. hexOf (ds ! k) @ ''.tar'') [i..<n]
     \<and> lastID = (if i < n then spec_legacyID L ds (n - 1) else lid)
     \<and> (\<forall>k. i \<le> k \<and> k < n \<longrightarrow>
            layerWritten L (configOf L configBytes) ds (code_parent L ds) k)"
proof (induction ls arbitrary: w c lid lp i)
  case Nil
  from Nil.prems(2,3) n have "i = n" by simp
  with Nil.prems(1) show ?case by auto
next
  case (Cons l ls)
  from drop_eq_ConsD [OF Cons.prems(2)] n
  have i: "i < n" and l: "descs ! i = l" and rest: "ls = drop (Suc i) descs"
    by simp_all
  have dsi: "ds ! i = desc_Digest l" and len: "length ds = n"
    using i l ds n by auto
  let ?isLast = "int i = int n - 1"
  have lastflag: "?isLast = (Suc i = n)" by auto
  obtain rb wb where body: "layerBody L configBytes ?isLast w c lid l = (rb, wb)"
    by (cases "layerBody L configBytes ?isLast w c lid l")
  have "\<exists>c' layerID plp. rb = Return (Inl (c', layerID, plp))
      \<and> layerLoop L configBytes n wb c' layerID (lp @ [plp]) (Suc i) ls
            = (Return (paths, lastID, None), w')"
  proof (cases rb)
    case Panicked
    with Cons.prems(1) body show ?thesis by simp
  next
    case (Return x)
    show ?thesis
    proof (cases x)
      case (Inr e)
      with Return Cons.prems(1) body show ?thesis by simp
    next
      case (Inl st)
      obtain c' layerID plp where "st = (c', layerID, plp)" by (cases st)
      with Inl Return Cons.prems(1) body show ?thesis by simp
    qed
  qed
  then obtain c' layerID plp where
    rb: "rb = Return (Inl (c', layerID, plp))"
    and loop: "layerLoop L configBytes n wb c' layerID (lp @ [plp]) (Suc i) ls
                 = (Return (paths, lastID, None), w')"
    by blast
  define m where "m = spec_layerConfig (configOf L configBytes) layerID
                  (if lid \<noteq> '''' then Some lid else None) ?isLast"
  note b = layerBody_ok [OF std body [unfolded rb] m_def]
  have chain: "c' = spec_chainID L ds i"
  proof (cases i)
    case 0
    with Cons.prems(4) b(1) dsi show ?thesis by simp
  next
    case (Suc j)
    with Cons.prems(4) have "c = spec_chainID L ds j" and "c \<noteq> ''''"
      by (auto dest: Hex_Some_nonempty)
    with b(1) dsi Suc show ?thesis by simp
  qed
  have lid': "layerID = spec_legacyID L ds i"
    using b(2) by (simp add: spec_legacyID_def hexOf_def chain [symmetric])
  have parent: "(if lid \<noteq> '''' then Some lid else None) = code_parent L ds i"
    using Cons.prems(4) by (auto simp: code_parent_def spec_legacyID_def hexOf_def)
  have m: "m = spec_layerConfig (configOf L configBytes) (spec_legacyID L ds i)
                 (code_parent L ds i) (Suc i = length ds)"
    by (simp add: m_def lid' parent len lastflag)
  have plp: "plp = hexOf (ds ! i) @ ''.tar''"
    using b(4) dsi by simp
  have ent: "layerEntries L m layerID plp
               = layerEntriesAt L (configOf L configBytes) ds (code_parent L ds) i"
    by (simp add: layerEntriesAt_def m lid' plp)
  have here: "layerWritten L (configOf L configBytes) ds (code_parent L ds) i"
    unfolding layerWritten_def m [symmetric]
    using b(2,3,5) by (simp add: chain [symmetric] lid' [symmetric] dsi)
  have inv: "(Suc i = 0 \<and> c' = '''' \<and> layerID = '''')
       \<or> (0 < Suc i \<and> c' = spec_chainID L ds (Suc i - 1) \<and> Hex c' = Some layerID)"
    using chain b(2) by simp
  from i have i': "Suc i \<le> n" by simp
  note IH = Cons.IH [OF loop rest i' inv]
  have upt: "[i..<n] = i # [Suc i..<n]"
    using i by (simp add: upt_conv_Cons)
  from IH have IH1: "entries (tar w') = entries (tar wb) @
        concat (map (layerEntriesAt L (configOf L configBytes) ds (code_parent L ds)) [Suc i..<n])"
    and IH2: "paths = (lp @ [plp]) @ map (\<lambda>k. hexOf (ds ! k) @ ''.tar'') [Suc i..<n]"
    and IH3: "lastID = (if Suc i < n then spec_legacyID L ds (n - 1) else layerID)"
    and IH4: "\<forall>k. Suc i \<le> k \<and> k < n \<longrightarrow>
            layerWritten L (configOf L configBytes) ds (code_parent L ds) k"
    by blast+
  have all: "\<forall>k. i \<le> k \<and> k < n \<longrightarrow>
            layerWritten L (configOf L configBytes) ds (code_parent L ds) k"
  proof (intro allI impI)
    fix k assume k: "i \<le> k \<and> k < n"
    show "layerWritten L (configOf L configBytes) ds (code_parent L ds) k"
    proof (cases "k = i")
      case True
      with here show ?thesis by simp
    next
      case False
      with k have "Suc i \<le> k \<and> k < n" by simp
      with IH4 show ?thesis by blast
    qed
  qed
  have lastID: "lastID = (if i < n then spec_legacyID L ds (n - 1) else lid)"
  proof (cases "Suc i < n")
    case True
    with IH3 i show ?thesis by simp
  next
    case False
    with i have "n - 1 = i" by simp
    with IH3 False i lid' show ?thesis by simp
  qed
  have paths: "paths = lp @ map (\<lambda>k. hexOf (ds ! k) @ ''.tar'') [i..<n]"
    using IH2 plp by (simp add: upt)
  have ents: "entries (tar w') = entries (tar w) @
        concat (map (layerEntriesAt L (configOf L configBytes) ds (code_parent L ds)) [i..<n])"
    using IH1 b(6) ent by (simp add: upt)
  from ents paths lastID all show ?case by (intro conjI)
qed

lemma take3_concat:
  "\<forall>x \<in> set xss. length x = 3 \<Longrightarrow> i < length xss \<Longrightarrow>
     take 3 (drop (3 * i) (concat xss)) = xss ! i"
proof (induction xss arbitrary: i)
  case Nil
  then show ?case by simp
next
  case (Cons x xss)
  show ?case
  proof (cases i)
    case 0
    with Cons.prems show ?thesis by simp
  next
    case (Suc j)
    with Cons.prems have "take 3 (drop (3 * j) (concat xss)) = xss ! j"
      by (intro Cons.IH) auto
    with Suc Cons.prems show ?thesis by simp
  qed
qed

lemma length_layerEntries: "length (layerEntriesAt L config ds parent i) = 3"
  by (simp add: layerEntriesAt_def layerEntries_def)

lemma layer_block:
  assumes "es' = es @ concat (map (layerEntriesAt L config ds parent) [0..<n])" and "i < n"
  shows "take 3 (drop (length es + 3 * i) es') = layerEntriesAt L config ds parent i"
proof -
  have "take 3 (drop (3 * i) (concat (map (layerEntriesAt L config ds parent) [0..<n])))
          = map (layerEntriesAt L config ds parent) [0..<n] ! i"
    using assms(2) by (intro take3_concat) (auto simp: length_layerEntries)
  with assms show ?thesis by simp
qed



lemma writeLegacyLayerMetadata_ok:
  assumes std: "tar_FileInfoHeader L = FileInfoHeader"
    and run: "writeLegacyLayerMetadata L w layerDescriptors configBytes
                = (Return (paths, lastID, None), w')"
    and ds: "ds = map desc_Digest layerDescriptors"
  shows "entries (tar w') = entries (tar w) @
           concat (map (layerEntriesAt L (configOf L configBytes) ds (code_parent L ds))
                     [0..<length ds])"
    and "paths = map (\<lambda>k. hexOf (ds ! k) @ ''.tar'') [0..<length ds]"
    and "lastID = (if 0 < length ds then spec_legacyID L ds (length ds - 1) else '''')"
    and "\<forall>k. k < length ds \<longrightarrow>
            layerWritten L (configOf L configBytes) ds (code_parent L ds) k"
proof -
  have n: "length layerDescriptors = length ds" using ds by simp
  note r = layerLoop_ok [OF std ds refl, of configBytes w "''''" "''''" "[]" 0
      layerDescriptors paths lastID w', unfolded n]
  have "entries (tar w') = entries (tar w) @
           concat (map (layerEntriesAt L (configOf L configBytes) ds (code_parent L ds))
                     [0..<length ds])
     \<and> paths = [] @ map (\<lambda>k. hexOf (ds ! k) @ ''.tar'') [0..<length ds]
     \<and> lastID = (if 0 < length ds then spec_legacyID L ds (length ds - 1) else '''')
     \<and> (\<forall>k. 0 \<le> k \<and> k < length ds \<longrightarrow>
            layerWritten L (configOf L configBytes) ds (code_parent L ds) k)"
    using run by (intro r) (simp_all add: writeLegacyLayerMetadata_def n)
  then show "entries (tar w') = entries (tar w) @
           concat (map (layerEntriesAt L (configOf L configBytes) ds (code_parent L ds))
                     [0..<length ds])"
    and "paths = map (\<lambda>k. hexOf (ds ! k) @ ''.tar'') [0..<length ds]"
    and "lastID = (if 0 < length ds then spec_legacyID L ds (length ds - 1) else '''')"
    and "\<forall>k. k < length ds \<longrightarrow>
            layerWritten L (configOf L configBytes) ds (code_parent L ds) k"
    by simp_all
qed

text \<open>
  C1. For every non-empty sequence of layer descriptors on which
  \<open>writeLegacyLayerMetadata\<close> returns without an error (standard header constructor),
  the legacy layer ID of layer \<open>i\<close>, the directory of its three entries, is the hex
  part of the chain ID of the spec: the digest of layer 0 for \<open>i = 0\<close>, and for a later
  layer the canonical hash of the previous chain ID, one space and the digest of layer
  \<open>i\<close>. The ID returned is that of the last layer.
\<close>

theorem legacy_ids_follow_chain:
  assumes std: "tar_FileInfoHeader L = FileInfoHeader"
    and run: "writeLegacyLayerMetadata L w layerDescriptors configBytes
                = (Return (paths, lastID, None), w')"
    and ne: "layerDescriptors \<noteq> []"
    and ds: "ds = map desc_Digest layerDescriptors"
  shows "lastID = spec_legacyID L ds (length ds - 1)
     \<and> (\<forall>i. i < length ds \<longrightarrow>
           Hex (spec_chainID L ds i) = Some (spec_legacyID L ds i)
         \<and> map (\<lambda>e. hdr_Name (fst e))
               (take 3 (drop (length (entries (tar w)) + 3 * i) (entries (tar w'))))
             = map (filepath_Join L (spec_legacyID L ds i)) [''layer.tar'', ''VERSION'', ''json''])"
proof -
  note ok = writeLegacyLayerMetadata_ok [OF std run ds]
  from ne ds have "0 < length ds" by simp
  with ok(3) have last: "lastID = spec_legacyID L ds (length ds - 1)" by simp
  have "Hex (spec_chainID L ds i) = Some (spec_legacyID L ds i)
         \<and> map (\<lambda>e. hdr_Name (fst e))
               (take 3 (drop (length (entries (tar w)) + 3 * i) (entries (tar w'))))
             = map (filepath_Join L (spec_legacyID L ds i)) [''layer.tar'', ''VERSION'', ''json'']"
    if i: "i < length ds" for i
  proof -
    from ok(4) i have "layerWritten L (configOf L configBytes) ds (code_parent L ds) i"
      by blast
    then have hex: "Hex (spec_chainID L ds i) = Some (spec_legacyID L ds i)"
      by (simp add: layerWritten_def)
    have "take 3 (drop (length (entries (tar w)) + 3 * i) (entries (tar w')))
            = layerEntriesAt L (configOf L configBytes) ds (code_parent L ds) i"
      using ok(1) i by (rule layer_block)
    then show ?thesis
      using hex
      by (simp add: layerEntriesAt_def layerEntries_def fileHeader_def symlinkHeader_def)
  qed
  with last show ?thesis by blast
qed


lemma hex256_length: "length (hex256 h) = 64"
  by (simp add: hex256_def)

lemma example_run:
  "writeLegacyLayerMetadata exampleLib (NewWriter None) exampleLayers ''{os:linux}''
     = (Return ([''aa.tar'', ''bb.tar''], hex256 19, None),
        \<lparr>tar = \<lparr>entries = exampleArchive, err = None, dest = None\<rparr>, blobs = Map.empty\<rparr>)"
  by (simp add: writeLegacyLayerMetadata_def exampleLayers_def exampleArchive_def layerBody_def
      layerConfigFor_def physicalLayerPath_def Canonical_FromString_def FromString_def
      run_defs example_defs fileHeader_def symlinkHeader_def hex256_length Let_def)

lemma example_std: "tar_FileInfoHeader exampleLib = FileInfoHeader"
  by (simp add: exampleLib_def)

lemma example_chain:
  "spec_chainID exampleLib (map desc_Digest exampleLayers) 0 = ''sha256:aa''"
  "spec_chainID exampleLib (map desc_Digest exampleLayers) 1 = ''sha256:'' @ hex256 19"
  by (simp_all add: exampleLayers_def exampleLib_def Canonical_FromString_def FromString_def)

theorem legacy_ids_follow_chain_witness:
  "tar_FileInfoHeader exampleLib = FileInfoHeader
   \<and> writeLegacyLayerMetadata exampleLib (NewWriter None) exampleLayers ''{os:linux}''
       = (Return ([''aa.tar'', ''bb.tar''], hex256 19, None),
          \<lparr>tar = \<lparr>entries = exampleArchive, err = None, dest = None\<rparr>, blobs = Map.empty\<rparr>)
   \<and> exampleLayers \<noteq> []
   \<and> spec_chainID exampleLib (map desc_Digest exampleLayers) 0 = ''sha256:aa''
   \<and> spec_chainID exampleLib (map desc_Digest exampleLayers) 1 = ''sha256:'' @ hex256 19
   \<and> hex256 19 = spec_legacyID exampleLib (map desc_Digest exampleLayers) 1
   \<and> map (\<lambda>e. hdr_Name (fst e)) (take 3 (drop 3 exampleArchive))
       = map (filepath_Join exampleLib (spec_legacyID exampleLib (map desc_Digest exampleLayers) 1))
           [''layer.tar'', ''VERSION'', ''json'']"
proof -
  have ne: "exampleLayers \<noteq> []" by (simp add: exampleLayers_def)
  have len: "length exampleLayers = 2" by (simp add: exampleLayers_def)
  note c = legacy_ids_follow_chain [OF example_std example_run ne refl]
  from c have c1: "hex256 19 = spec_legacyID exampleLib (map desc_Digest exampleLayers) 1"
    by (simp add: len)
  from c [THEN conjunct2, THEN spec, of 1]
  have c2: "map (\<lambda>e. hdr_Name (fst e)) (take 3 (drop 3 exampleArchive))
       = map (filepath_Join exampleLib (spec_legacyID exampleLib (map desc_Digest exampleLayers) 1))
           [''layer.tar'', ''VERSION'', ''json'']"
    by (simp add: len NewWriter_def tar_NewWriter_def)
  from example_std example_run ne example_chain c1 c2 show ?thesis by simp
qed




text \<open>
  C10. On an empty sequence of layer descriptors \<open>writeLegacyLayerMetadata\<close> returns
  the nil paths, the empty layer ID and no error, and leaves the writer as it was, whatever
  the configuration bytes are (they are never decoded). A \<open>createRepositoriesFile\<close> that
  follows with that empty ID builds a map sending every supplied tag to the empty string,
  and that map is what the \<open>repositories\<close> file encodes.
\<close>

theorem writeLegacyLayerMetadata_empty:
  "writeLegacyLayerMetadata L w [] configBytes = (Return ([], '''', None), w)
   \<and> (\<forall>r \<in> set repoTags.
         \<exists>ts. addRepoTags '''' Map.empty repoTags (Name r) = Some ts \<and> ts (Tag r) = Some '''')
   \<and> (tar_FileInfoHeader L = FileInfoHeader
        \<longrightarrow> createRepositoriesFile L w '''' repoTags = (None, w')
        \<longrightarrow> json_Marshal L (Repositories (addRepoTags '''' Map.empty repoTags))
              = Inr (marshalled L (Repositories (addRepoTags '''' Map.empty repoTags)))
            \<and> entries (tar w') = entries (tar w) @
                 [(fileHeader ''repositories''
                     (int (length (marshalled L
                        (Repositories (addRepoTags '''' Map.empty repoTags))))),
                   marshalled L (Repositories (addRepoTags '''' Map.empty repoTags)))])"
proof -
  have a: "writeLegacyLayerMetadata L w [] configBytes = (Return ([], '''', None), w)"
    by (simp add: writeLegacyLayerMetadata_def)
  have b: "\<forall>r \<in> set repoTags.
         \<exists>ts. addRepoTags '''' Map.empty repoTags (Name r) = Some ts \<and> ts (Tag r) = Some ''''"
    by (auto simp: addRepoTags_spec spec_repositories_def list_ex_iff)
  have c: "json_Marshal L (Repositories (addRepoTags '''' Map.empty repoTags))
              = Inr (marshalled L (Repositories (addRepoTags '''' Map.empty repoTags)))
            \<and> entries (tar w') = entries (tar w) @
                 [(fileHeader ''repositories''
                     (int (length (marshalled L
                        (Repositories (addRepoTags '''' Map.empty repoTags))))),
                   marshalled L (Repositories (addRepoTags '''' Map.empty repoTags)))]"
    if std: "tar_FileInfoHeader L = FileInfoHeader"
      and run: "createRepositoriesFile L w '''' repoTags = (None, w')"
  proof -
    from run obtain b' where
      m: "json_Marshal L (Repositories (addRepoTags '''' Map.empty repoTags)) = Inr b'"
      and sb: "sendBytes L w legacyRepositoriesFileName b' = (None, w')"
      by (auto simp: createRepositoriesFile_def Let_def
          split: sum.splits prod.splits option.splits)
    from sendBytes_ok [OF std sb] m show ?thesis
      by (simp add: marshalled_def legacyRepositoriesFileName_def)
  qed
  from a b c show ?thesis by blast
qed

theorem writeLegacyLayerMetadata_empty_witness:
  "json_Unmarshal exampleLib ''not json'' = Inl (JSONError ''unexpected input'')
   \<and> writeLegacyLayerMetadata exampleLib (NewWriter None) [] ''not json''
       = (Return ([], '''', None), NewWriter None)
   \<and> tar_FileInfoHeader exampleLib = FileInfoHeader
   \<and> createRepositoriesFile exampleLib (NewWriter None) ''''
        [\<lparr>Name = ''busybox'', Tag = ''latest''\<rparr>]
       = (None,
          \<lparr>tar = \<lparr>entries = [(fileHeader ''repositories'' 16, ''busybox:latest=;'')],
                  err = None, dest = None\<rparr>,
           blobs = Map.empty\<rparr>)
   \<and> (\<exists>ts. addRepoTags '''' Map.empty [\<lparr>Name = ''busybox'', Tag = ''latest''\<rparr>] ''busybox''
              = Some ts \<and> ts ''latest'' = Some '''')"
  using writeLegacyLayerMetadata_empty [where L = exampleLib and w = "NewWriter None"
      and configBytes = "''not json''" and repoTags = "[\<lparr>Name = ''busybox'', Tag = ''latest''\<rparr>]"
      and w' = "\<lparr>tar = \<lparr>entries = [(fileHeader ''repositories'' 16, ''busybox:latest=;'')],
                  err = None, dest = None\<rparr>,
           blobs = Map.empty\<rparr>"]
  by (simp add: run_defs example_defs createRepositoriesFile_def fileHeader_def)

end
